theory Spec2Isabelle
  imports Complex_Main "HOL-Library.Product_Lexorder" "HOL-Library.List_Lexorder"
    "HOL-Library.Char_ord" "HOL-Library.Option_ord"
begin

section \<open>Python values, errors and dictionaries\<close>

text \<open>
  Floats are modelled as exact reals. The special values of IEEE arithmetic (NaN and the
  infinities) are written out only where the program relies on them: in the metrics
  computation of \<open>data_processor.py\<close> below. Exceptions are values of \<open>py_error\<close>.
\<close>

datatype py_error = KeyError | ZeroDivisionError | ValueError

datatype pyval = PyBool bool | PyInt int | PyFloat real

fun num :: "pyval \<Rightarrow> real" where
  "num (PyBool b) = (if b then 1 else 0)"
| "num (PyInt n) = of_int n"
| "num (PyFloat r) = r"

fun truthy :: "pyval \<Rightarrow> bool" where
  "truthy (PyBool b) = b"
| "truthy (PyInt n) = (n \<noteq> 0)"
| "truthy (PyFloat r) = (r \<noteq> 0)"

type_synonym config = "string \<rightharpoonup> pyval"

definition dict_get :: "config \<Rightarrow> string \<Rightarrow> pyval \<Rightarrow> pyval" where
  \<comment> \<open>\<open>config.get(key, default)\<close>\<close>
  "dict_get cfg k d = (case cfg k of None \<Rightarrow> d | Some v \<Rightarrow> v)"

datatype ieee = Finite real | PosInf | NegInf | NaN

definition py_int :: "real \<Rightarrow> int" where
  \<comment> \<open>\<open>int(r)\<close> on a float: truncation towards zero\<close>
  "py_int r = (if 0 \<le> r then \<lfloor>r\<rfloor> else \<lceil>r\<rceil>)"

definition py_round :: "real \<Rightarrow> int" where
  \<comment> \<open>\<open>round(r)\<close> on a float: nearest integer, a tie goes to the even one\<close>
  "py_round r =
     (let f = \<lfloor>r\<rfloor>; d = r - of_int f
      in if d < 1 / 2 then f else if 1 / 2 < d then f + 1 else if even f then f else f + 1)"

section \<open>config.py: the scenario presets\<close>

definition CENARIO_CONSERVADOR :: config where
  "CENARIO_CONSERVADOR = map_of
     [(''orcamento'', PyFloat 100000),
      (''risco_maximo'', PyFloat (25 / 100)),
      (''retorno_minimo'', PyFloat (8 / 100)),
      (''num_ativos_min'', PyInt 10),
      (''num_ativos_max'', PyInt 20),
      (''diversificacao_setor'', PyBool True),
      (''alpha_setor_min'', PyFloat 0),
      (''alpha_setor_max'', PyFloat (25 / 100)),
      (''num_setores_min'', PyInt 4),
      (''max_ativo_pct'', PyFloat (20 / 100)),
      (''excluir_retorno_negativo'', PyBool True)]"

definition CENARIO_MODERADO :: config where
  "CENARIO_MODERADO = map_of
     [(''orcamento'', PyFloat 100000),
      (''risco_maximo'', PyFloat (35 / 100)),
      (''retorno_minimo'', PyFloat (12 / 100)),
      (''num_ativos_min'', PyInt 5),
      (''num_ativos_max'', PyInt 15),
      (''diversificacao_setor'', PyBool True),
      (''alpha_setor_min'', PyFloat 0),
      (''alpha_setor_max'', PyFloat (35 / 100)),
      (''num_setores_min'', PyInt 3),
      (''max_ativo_pct'', PyFloat (40 / 100))]"

definition CENARIO_AGRESSIVO :: config where
  "CENARIO_AGRESSIVO = map_of
     [(''orcamento'', PyFloat 100000),
      (''risco_maximo'', PyFloat (50 / 100)),
      (''retorno_minimo'', PyFloat (18 / 100)),
      (''num_ativos_min'', PyInt 3),
      (''num_ativos_max'', PyInt 10),
      (''diversificacao_setor'', PyBool True),
      (''alpha_setor_min'', PyFloat 0),
      (''alpha_setor_max'', PyFloat 1),
      (''num_setores_min'', PyInt 2),
      (''max_ativo_pct'', PyFloat (60 / 100))]"

section \<open>optimizer.py: the mixed-integer model\<close>

text \<open>
  The metrics frame the optimizer reads: its index (the tickers) and one function per
  column. The solver's model is a list of typed variables, an objective and a list of
  named linear constraints, as the calls of \<open>addVars\<close>, \<open>setObjective\<close> and
  \<open>addConstr\<close> build it.
\<close>

record metricas =
  index :: "string list"
  retorno_esperado :: "string \<Rightarrow> real"
  desvio_padrao :: "string \<Rightarrow> real"
  sharpe_ratio :: "string \<Rightarrow> ieee"
  preco_atual :: "string \<Rightarrow> real"
  nome_empresa :: "string \<Rightarrow> string"
  setor :: "string \<Rightarrow> string"

datatype var = X string | Y string | Z string

datatype vtype = BINARY | INTEGER

datatype expr =
    Const real
  | V var
  | Scale real expr
  | Sub expr expr
  | Quicksum "expr list"

fun eval_expr :: "(var \<Rightarrow> real) \<Rightarrow> expr \<Rightarrow> real" where
  "eval_expr a (Const c) = c"
| "eval_expr a (V v) = a v"
| "eval_expr a (Scale c e) = c * eval_expr a e"
| "eval_expr a (Sub e1 e2) = eval_expr a e1 - eval_expr a e2"
| "eval_expr a (Quicksum es) = sum_list (map (eval_expr a) es)"

datatype sense = LE | GE | EQ

datatype constr = Constr (nome: string) (lhs: expr) (sentido: sense) (rhs: expr)

fun holds :: "(var \<Rightarrow> real) \<Rightarrow> constr \<Rightarrow> bool" where
  "holds a (Constr n l LE r) = (eval_expr a l \<le> eval_expr a r)"
| "holds a (Constr n l GE r) = (eval_expr a l \<ge> eval_expr a r)"
| "holds a (Constr n l EQ r) = (eval_expr a l = eval_expr a r)"

record modelo =
  variaveis :: "(var \<times> vtype \<times> real) list"
  objetivo :: expr
  restricoes :: "constr list"

fun in_domain :: "(var \<Rightarrow> real) \<Rightarrow> var \<times> vtype \<times> real \<Rightarrow> bool" where
  "in_domain a (v, BINARY, l) = (a v = 0 \<or> a v = 1)"
| "in_domain a (v, INTEGER, l) = (a v \<in> \<int> \<and> l \<le> a v)"

definition feasible :: "modelo \<Rightarrow> (var \<Rightarrow> real) \<Rightarrow> bool" where
  "feasible m a = (list_all (in_domain a) (variaveis m) \<and> list_all (holds a) (restricoes m))"

definition unique :: "'a list \<Rightarrow> 'a list" where
  \<comment> \<open>\<open>Series.unique()\<close>: the distinct values in order of first appearance\<close>
  "unique xs = rev (remdups (rev xs))"

definition investimento :: "metricas \<Rightarrow> string list \<Rightarrow> expr" where
  \<comment> \<open>\<open>gp.quicksum(preco[i] * y[i] for i in ativos)\<close>\<close>
  "investimento met ativos = Quicksum (map (\<lambda>i. Scale (preco_atual met i) (V (Y i))) ativos)"

definition max_lotes :: "real \<Rightarrow> metricas \<Rightarrow> py_error + int" where
  \<comment> \<open>\<open>int(B / min(preco.values())) if preco else 1000\<close>\<close>
  "max_lotes B met =
     (if index met = [] then Inr 1000
      else let m = min_list (map (preco_atual met) (index met))
           in if m = 0 then Inl ZeroDivisionError else Inr (py_int (B / m)))"

definition restricoes_setor :: "config \<Rightarrow> metricas \<Rightarrow> real \<Rightarrow> constr list" where
  "restricoes_setor cfg met B =
     (if truthy (dict_get cfg ''diversificacao_setor'' (PyBool False)) then
        let setores = unique (map (setor met) (index met));
            alpha_min = num (dict_get cfg ''alpha_setor_min'' (PyFloat 0));
            alpha_max = num (dict_get cfg ''alpha_setor_max'' (PyFloat (3 / 10)));
            num_setores_min = num (dict_get cfg ''num_setores_min'' (PyInt 1))
        in concat (map (\<lambda>s.
             let ativos_setor = filter (\<lambda>i. setor met i = s) (index met)
             in if ativos_setor \<noteq> [] then
                  [Constr (''setor_'' @ s @ ''_max'') (investimento met ativos_setor) LE
                     (Const (alpha_max * B)),
                   Constr (''setor_'' @ s @ ''_ativa'') (investimento met ativos_setor) LE
                     (Scale B (V (Z s)))]
                  @ (if 0 < alpha_min then
                       [Constr (''setor_'' @ s @ ''_min'') (investimento met ativos_setor) GE
                          (Scale (alpha_min * B) (V (Z s)))]
                     else [])
                else []) setores)
           @ [Constr ''num_setores_min'' (Quicksum (map (\<lambda>s. V (Z s)) setores)) GE
                (Const num_setores_min)]
      else [])"

definition restricoes_max_ativo :: "config \<Rightarrow> metricas \<Rightarrow> real \<Rightarrow> constr list" where
  "restricoes_max_ativo cfg met B =
     (let max_ativo_pct = num (dict_get cfg ''max_ativo_pct'' (PyFloat 1))
      in if max_ativo_pct < 1 then
           map (\<lambda>i. Constr (''max_ativo_'' @ i) (Scale (preco_atual met i) (V (Y i))) LE
                      (Const (max_ativo_pct * B))) (index met)
         else [])"

definition restricoes_negativos :: "config \<Rightarrow> metricas \<Rightarrow> constr list" where
  "restricoes_negativos cfg met =
     (if truthy (dict_get cfg ''excluir_retorno_negativo'' (PyBool True)) then
        map (\<lambda>i. Constr (''no_negative_'' @ i) (V (Y i)) EQ (Const 0))
          (filter (\<lambda>i. retorno_esperado met i < 0) (index met))
      else [])"

definition restricoes_consistencia :: "metricas \<Rightarrow> int \<Rightarrow> constr list" where
  "restricoes_consistencia met M =
     concat (map (\<lambda>i.
       [Constr (''consistencia_max_'' @ i) (V (Y i)) LE (Scale (of_int M) (V (X i))),
        Constr (''consistencia_min_'' @ i) (V (Y i)) GE (Scale 1 (V (X i)))]) (index met))"

definition construir_modelo :: "config \<Rightarrow> metricas \<Rightarrow> py_error + modelo" where
  "construir_modelo cfg met =
     (case (cfg ''orcamento'', cfg ''risco_maximo'', cfg ''retorno_minimo'',
            cfg ''num_ativos_min'', cfg ''num_ativos_max'') of
        (Some vB, Some vR, Some vT, Some vLmin, Some vLmax) \<Rightarrow>
          (let I = index met; B = num vB; R = num vR; T = num vT;
               mu = retorno_esperado met; sigma = desvio_padrao met; preco = preco_atual met
           in case max_lotes B met of
                Inl e \<Rightarrow> Inl e
              | Inr M \<Rightarrow> Inr \<lparr>
                  variaveis =
                    map (\<lambda>i. (X i, BINARY, 0)) I @ map (\<lambda>i. (Y i, INTEGER, 0)) I
                    @ (if truthy (dict_get cfg ''diversificacao_setor'' (PyBool False))
                       then map (\<lambda>s. (Z s, BINARY, 0)) (unique (map (setor met) I)) else []),
                  objetivo = Quicksum (map (\<lambda>i. Scale (mu i * preco i) (V (Y i))) I),
                  restricoes =
                    [Constr ''orcamento'' (investimento met I) LE (Const B),
                     Constr ''risco''
                       (Sub (Quicksum (map (\<lambda>i. Scale (sigma i * preco i) (V (Y i))) I))
                            (Scale R (investimento met I))) LE (Const 0),
                     Constr ''retorno_min''
                       (Sub (Quicksum (map (\<lambda>i. Scale (mu i * preco i) (V (Y i))) I))
                            (Scale T (investimento met I))) GE (Const 0),
                     Constr ''min_ativos'' (Quicksum (map (\<lambda>i. V (X i)) I)) GE
                       (Const (num vLmin)),
                     Constr ''max_ativos'' (Quicksum (map (\<lambda>i. V (X i)) I)) LE
                       (Const (num vLmax))]
                    @ restricoes_setor cfg met B
                    @ restricoes_max_ativo cfg met B
                    @ restricoes_negativos cfg met
                    @ restricoes_consistencia met M \<rparr>)
      | _ \<Rightarrow> Inl KeyError)"

section \<open>optimizer.py: solving and extracting the solution\<close>

text \<open>
  What the solver hands back: its status, the value \<open>.X\<close> of every variable, the
  objective value, the gap and the run time. The values are floats: near-integer for the
  integer variables, not exactly integer.
\<close>

datatype status = OPTIMAL | TIME_LIMIT | INFEASIBLE | OTHER

record solve =
  Status :: status
  valor :: "var \<Rightarrow> real"
  ObjVal :: real
  MIPGap :: real
  Runtime :: real

record item =
  item_ticker :: string
  item_nome :: string
  item_setor :: string
  item_preco :: real
  item_quantidade :: int
  item_investimento :: real
  item_retorno_esperado :: real
  item_desvio_padrao :: real
  item_sharpe_ratio :: ieee

record solucao =
  carteira :: "item list"
  num_ativos :: nat
  retorno_total :: real
  risco_total :: real
  sharpe_carteira :: real
  investimento_total :: real
  funcao_objetivo :: real
  gap :: real
  tempo_exec :: real

definition ativos_selecionados :: "metricas \<Rightarrow> solve \<Rightarrow> string list" where
  \<comment> \<open>\<open>[i for i in self.metricas.index if self.x_vars[i].X > 0.5]\<close>\<close>
  "ativos_selecionados met sol = filter (\<lambda>i. 1 / 2 < valor sol (X i)) (index met)"

definition linha_carteira :: "metricas \<Rightarrow> solve \<Rightarrow> string \<Rightarrow> item" where
  "linha_carteira met sol ativo =
     (let quantidade = py_round (valor sol (Y ativo));
          preco_unitario = preco_atual met ativo
      in \<lparr> item_ticker = ativo,
           item_nome = nome_empresa met ativo,
           item_setor = setor met ativo,
           item_preco = preco_unitario,
           item_quantidade = quantidade,
           item_investimento = of_int quantidade * preco_unitario,
           item_retorno_esperado = retorno_esperado met ativo,
           item_desvio_padrao = desvio_padrao met ativo,
           item_sharpe_ratio = sharpe_ratio met ativo \<rparr>)"

definition extrair_solucao :: "metricas \<Rightarrow> solve \<Rightarrow> py_error + solucao" where
  \<comment> \<open>A frame built from an empty list of rows has no column: reading
      \<open>df_carteira['investimento']\<close> then raises KeyError.\<close>
  "extrair_solucao met sol =
     (let sel = ativos_selecionados met sol;
          df_carteira = map (linha_carteira met sol) sel
      in if df_carteira = [] then Inl KeyError
         else
           let total = sum_list (map item_investimento df_carteira);
               retorno =
                 (if 0 < total
                  then sum_list (map (\<lambda>i. retorno_esperado met i * preco_atual met i
                                            * valor sol (Y i)) sel) / total
                  else 0);
               risco =
                 (if 0 < total
                  then sum_list (map (\<lambda>i. desvio_padrao met i * preco_atual met i
                                            * valor sol (Y i)) sel) / total
                  else 0)
           in Inr \<lparr> carteira = df_carteira,
                     num_ativos = length sel,
                     retorno_total = retorno,
                     risco_total = risco,
                     sharpe_carteira = (if 0 < risco then retorno / risco else 0),
                     investimento_total = total,
                     funcao_objetivo = ObjVal sol,
                     gap = MIPGap sol,
                     tempo_exec = Runtime sol \<rparr>)"

definition otimizar :: "metricas \<Rightarrow> solve \<Rightarrow> py_error + solucao option" where
  \<comment> \<open>After \<open>model.optimize()\<close>: a solution is extracted on OPTIMAL and TIME_LIMIT,
      every other status returns \<open>None\<close>.\<close>
  "otimizar met sol =
     (if Status sol = OPTIMAL \<or> Status sol = TIME_LIMIT
      then (case extrair_solucao met sol of Inl e \<Rightarrow> Inl e | Inr s \<Rightarrow> Inr (Some s))
      else Inr None)"

text \<open>
  What the solver accepts as a solution. \<open>otimizar\<close> sets the integrality tolerance
  \<open>IntFeasTol = 1e-9\<close>: a binary or integer variable may take any value within the
  tolerance of an integer. Every constraint row is taken exactly here, so nothing below
  rests on a tolerance of the rows. \<open>feasible\<close> above is the special case of values that
  are exactly integers.
\<close>

definition IntFeasTol :: real where
  "IntFeasTol = 1 / 10 ^ 9"

fun in_domain_tol :: "real \<Rightarrow> (var \<Rightarrow> real) \<Rightarrow> var \<times> vtype \<times> real \<Rightarrow> bool" where
  "in_domain_tol tol a (v, BINARY, l) = (\<bar>a v\<bar> \<le> tol \<or> \<bar>a v - 1\<bar> \<le> tol)"
| "in_domain_tol tol a (v, INTEGER, l) =
     (\<bar>a v - of_int \<lfloor>a v + 1 / 2\<rfloor>\<bar> \<le> tol \<and> l - tol \<le> a v)"

definition aceita :: "modelo \<Rightarrow> (var \<Rightarrow> real) \<Rightarrow> bool" where
  "aceita m a =
     (list_all (in_domain_tol IntFeasTol a) (variaveis m) \<and> list_all (holds a) (restricoes m))"

section \<open>A worked scenario\<close>

text \<open>
  Three assets A (price 100, return 0.20, risk 0.10), B (price 50, return 0.15,
  risk 0.20) and C (price 200, return -0.05, risk 0.05) under a budget of 10000, a risk
  cap of 0.25, a return floor of 0.10 and one or two assets. The configuration holds the
  five required keys only, so every optional key takes the builder's default. The
  assignment spends the whole budget on A.
\<close>

definition metricas_exemplo :: metricas where
  "metricas_exemplo =
     \<lparr> index = [''A'', ''B'', ''C''],
       retorno_esperado = (\<lambda>t. if t = ''A'' then 20 / 100 else if t = ''B'' then 15 / 100
                                else - 5 / 100),
       desvio_padrao = (\<lambda>t. if t = ''A'' then 10 / 100 else if t = ''B'' then 20 / 100
                             else 5 / 100),
       sharpe_ratio = (\<lambda>t. if t = ''A'' then Finite 2 else if t = ''B'' then Finite (3 / 4)
                            else Finite (- 1)),
       preco_atual = (\<lambda>t. if t = ''A'' then 100 else if t = ''B'' then 50 else 200),
       nome_empresa = (\<lambda>t. t),
       setor = (\<lambda>t. ''Outros'') \<rparr>"

definition config_exemplo :: config where
  "config_exemplo = map_of
     [(''orcamento'', PyFloat 10000),
      (''risco_maximo'', PyFloat (25 / 100)),
      (''retorno_minimo'', PyFloat (10 / 100)),
      (''num_ativos_min'', PyInt 1),
      (''num_ativos_max'', PyInt 2)]"

definition solve_exemplo :: solve where
  "solve_exemplo =
     \<lparr> Status = OPTIMAL,
       valor = (\<lambda>v. if v = X ''A'' then 1 else if v = Y ''A'' then 100 else 0),
       ObjVal = 2000, MIPGap = 0, Runtime = 1 \<rparr>"

section \<open>Further scenarios\<close>

text \<open>
  The sectors that carry investment under an assignment: the distinct sectors of the
  universe whose assets' spend is not zero.
\<close>

definition setores_com_investimento :: "metricas \<Rightarrow> (var \<Rightarrow> real) \<Rightarrow> string list" where
  "setores_com_investimento met a =
     filter (\<lambda>s. eval_expr a (investimento met (filter (\<lambda>i. setor met i = s) (index met))) \<noteq> 0)
       (unique (map (setor met) (index met)))"

text \<open>
  A universe for the aggressive preset: three assets of one sector with a return of 0.30
  and one asset of another sector with a return of 0.20, all at price 100 and risk 0.20.
  The assignment spends the whole budget on the first sector and sets both sector
  indicators to 1.
\<close>

definition metricas_setores :: metricas where
  "metricas_setores =
     \<lparr> index = [''AAAA3'', ''BBBB3'', ''CCCC3'', ''DDDD3''],
       retorno_esperado = (\<lambda>t. if t = ''DDDD3'' then 20 / 100 else 30 / 100),
       desvio_padrao = (\<lambda>t. 20 / 100),
       sharpe_ratio = (\<lambda>t. if t = ''DDDD3'' then Finite 1 else Finite (3 / 2)),
       preco_atual = (\<lambda>t. 100),
       nome_empresa = (\<lambda>t. t),
       setor = (\<lambda>t. if t = ''DDDD3'' then ''Energia'' else ''Financeiro'') \<rparr>"

definition valor_setores :: "var \<Rightarrow> real" where
  "valor_setores v =
     (if v = X ''AAAA3'' \<or> v = X ''BBBB3'' \<or> v = X ''CCCC3'' then 1
      else if v = Y ''AAAA3'' then 400
      else if v = Y ''BBBB3'' \<or> v = Y ''CCCC3'' then 300
      else if v = Z ''Financeiro'' \<or> v = Z ''Energia'' then 1
      else 0)"

text \<open>
  A universe whose only asset has a negative return, under the worked configuration with
  the minimum number of assets set to 0; the solver can only answer with the empty
  portfolio.
\<close>

definition metricas_negativo :: metricas where
  "metricas_negativo = metricas_exemplo \<lparr> index := [''C''] \<rparr>"

definition config_sem_minimo :: config where
  "config_sem_minimo = config_exemplo(''num_ativos_min'' \<mapsto> PyInt 0)"

definition solve_vazio :: solve where
  "solve_vazio = \<lparr> Status = OPTIMAL, valor = (\<lambda>v. 0), ObjVal = 0, MIPGap = 0, Runtime = 1 \<rparr>"

text \<open>
  The worked scenario solved with a lot count that is integer only up to the solver's
  integrality tolerance (\<open>IntFeasTol = 1e-9\<close>): two lots of A plus \<open>1e-10\<close>.
\<close>

definition solve_quase_inteiro :: solve where
  "solve_quase_inteiro =
     \<lparr> Status = OPTIMAL,
       valor = (\<lambda>v. if v = X ''A'' then 1 else if v = Y ''A'' then 2 + 1 / 10 ^ 10 else 0),
       ObjVal = 40, MIPGap = 0, Runtime = 1 \<rparr>"



section \<open>data_processor.py: frames and float cells\<close>

text \<open>
  A frame is a list of rows, and a row maps column names to cells, as the list of
  dictionaries the parser builds. A float cell holds an IEEE value: a real, an infinity or
  NaN (the missing value of the frame). Signed zeros and rounding are not modelled.
\<close>

datatype 'd cell = Texto string | Numero ieee | Data 'd

type_synonym 'd row = "(string \<times> 'd cell) list"

definition sinal_inf :: "real \<Rightarrow> ieee" where
  \<comment> \<open>a non-zero real over zero, or times infinity: the infinity of its sign; NaN for zero\<close>
  "sinal_inf a = (if a = 0 then NaN else if 0 < a then PosInf else NegInf)"





fun ieee_div :: "ieee \<Rightarrow> ieee \<Rightarrow> ieee" where
  "ieee_div (Finite a) (Finite b) = (if b = 0 then sinal_inf a else Finite (a / b))"
| "ieee_div NaN y = NaN"
| "ieee_div x NaN = NaN"
| "ieee_div (Finite a) y = Finite 0"
| "ieee_div PosInf (Finite b) = (if b < 0 then NegInf else PosInf)"
| "ieee_div NegInf (Finite b) = (if b < 0 then PosInf else NegInf)"
| "ieee_div x y = NaN"






section \<open>data_processor.py: reading the tape\<close>

definition colunas_spec :: "(string \<times> nat \<times> nat) list" where
  "colunas_spec =
     [(''tipo_registro'', 0, 2), (''data_pregao'', 2, 10), (''cod_bdi'', 10, 12),
      (''ticker'', 12, 24), (''tipo_mercado'', 24, 27), (''nome_empresa'', 27, 39),
      (''especificacao'', 39, 49), (''prazo_dias'', 49, 52), (''moeda'', 52, 56),
      (''preco_abertura'', 56, 69), (''preco_maximo'', 69, 82), (''preco_minimo'', 82, 95),
      (''preco_medio'', 95, 108), (''preco_ultimo'', 108, 121),
      (''preco_melhor_compra'', 121, 134), (''preco_melhor_venda'', 134, 147),
      (''total_negocios'', 147, 152), (''quantidade_negociada'', 152, 170),
      (''volume_total'', 170, 188), (''preco_exercicio'', 188, 201),
      (''indicador_correcao'', 201, 202), (''data_vencimento'', 202, 210),
      (''fator_cotacao'', 210, 217), (''preco_exercicio_pontos'', 217, 230),
      (''isin'', 230, 242), (''distribuicao'', 242, 245)]"

definition campos_preco :: "string list" where
  "campos_preco =
     [''preco_abertura'', ''preco_maximo'', ''preco_minimo'', ''preco_medio'', ''preco_ultimo'']"

definition slice :: "nat \<Rightarrow> nat \<Rightarrow> string \<Rightarrow> string" where
  \<comment> \<open>\<open>linha[inicio:fim]\<close>: shorter, down to empty, when the line is too short\<close>
  "slice inicio fim s = take (fim - inicio) (drop inicio s)"

definition is_space :: "char \<Rightarrow> bool" where
  \<comment> \<open>\<open>str.isspace\<close> on the code points below 256 (the file is read as latin1)\<close>
  "is_space c = (of_char c \<in> {9, 10, 11, 12, 13, 28, 29, 30, 31, 32, 133, 160 :: nat})"

definition strip :: "string \<Rightarrow> string" where
  "strip s = rev (dropWhile is_space (rev (dropWhile is_space s)))"

definition startswith :: "string \<Rightarrow> string \<Rightarrow> bool" where
  "startswith s p = (take (length p) s = p)"

definition registro :: "string \<Rightarrow> (string \<times> string) list" where
  \<comment> \<open>\<open>{nome: linha[inicio:fim].strip() for nome, inicio, fim in colunas_spec}\<close>\<close>
  "registro linha = map (\<lambda>(nome, inicio, fim). (nome, strip (slice inicio fim linha))) colunas_spec"

fun ler_linhas :: "string list \<Rightarrow> (string \<times> string) list list" where
  "ler_linhas [] = []"
| "ler_linhas (linha # resto) =
     (if startswith linha ''00'' \<or> startswith linha ''99'' then ler_linhas resto
      else if startswith linha ''01'' then registro linha # ler_linhas resto
      else ler_linhas resto)"

definition atualizar :: "string \<Rightarrow> ('d cell \<Rightarrow> 'd cell) \<Rightarrow> 'd row list \<Rightarrow> 'd row list" where
  \<comment> \<open>\<open>df[campo] = f(df[campo])\<close>, cell by cell\<close>
  "atualizar campo f df = map (map (\<lambda>(k, c). if k = campo then (k, f c) else (k, c))) df"

fun numerico :: "(string \<Rightarrow> ieee) \<Rightarrow> 'd cell \<Rightarrow> 'd cell" where
  "numerico to_numeric (Texto s) = Numero (to_numeric s)"
| "numerico to_numeric c = c"

fun dividir :: "real \<Rightarrow> 'd cell \<Rightarrow> 'd cell" where
  "dividir k (Numero v) = Numero (ieee_div v (Finite k))"
| "dividir k c = c"

fun str_strip :: "'d cell \<Rightarrow> 'd cell" where
  "str_strip (Texto s) = Texto (strip s)"
| "str_strip c = c"

fun texto_de :: "'d cell option \<Rightarrow> string" where
  "texto_de (Some (Texto s)) = s"
| "texto_de c = []"

fun data_de :: "'d cell option \<Rightarrow> 'd option" where
  "data_de (Some (Data d)) = Some d"
| "data_de c = None"

definition processar_cotahist ::
  "(string \<Rightarrow> ieee) \<Rightarrow> (string \<Rightarrow> 'd option) \<Rightarrow> string list \<Rightarrow> py_error + ('d::linorder) row list"
where
  \<comment> \<open>\<open>to_numeric\<close> is \<open>pd.to_numeric(errors='coerce')\<close> on one string (NaN when it does
      not parse); \<open>to_datetime\<close> is \<open>pd.to_datetime(format='%Y%m%d')\<close> on one string
      (\<open>None\<close> when it raises). A frame built from no record has no column, so reading
      \<open>df['data_pregao']\<close> raises KeyError.\<close>
  "processar_cotahist to_numeric to_datetime linhas =
     (let dados = ler_linhas linhas;
          df = map (map (\<lambda>(k, s). (k, Texto s))) dados
      in if dados = [] then Inl KeyError
         else if list_ex (\<lambda>r. to_datetime (texto_de (map_of r ''data_pregao'')) = None) df
         then Inl ValueError
         else
           let df = atualizar ''data_pregao''
                      (\<lambda>c. case to_datetime (texto_de (Some c)) of Some d \<Rightarrow> Data d | None \<Rightarrow> c) df;
               df = fold (\<lambda>campo. atualizar campo (dividir 100 \<circ> numerico to_numeric))
                      campos_preco df;
               df = atualizar ''volume_total'' (dividir 100 \<circ> numerico to_numeric) df;
               df = atualizar ''quantidade_negociada'' (numerico to_numeric) df;
               df = atualizar ''total_negocios'' (numerico to_numeric) df;
               df = atualizar ''ticker'' str_strip df;
               df = atualizar ''nome_empresa'' str_strip df
           in Inr (sort_key (\<lambda>r. (data_de (map_of r ''data_pregao''),
                                   texto_de (map_of r ''ticker''))) df))"

text \<open>
  The record a line of type 01 stands for, field by field as the specification describes
  it: the date converted, the five prices and the volume parsed and divided by 100, the
  quantity and the trade count parsed, every other field the stripped text. It is compared
  below with what \<open>processar_cotahist\<close> computes.
\<close>

definition registro_convertido ::
  "(string \<Rightarrow> ieee) \<Rightarrow> (string \<Rightarrow> 'd option) \<Rightarrow> string \<Rightarrow> 'd row"
where
  "registro_convertido to_numeric to_datetime linha =
     map (\<lambda>(nome, inicio, fim).
        (nome,
         let s = strip (slice inicio fim linha)
         in if nome = ''data_pregao''
              then (case to_datetime s of Some d \<Rightarrow> Data d | None \<Rightarrow> Texto s)
            else if nome \<in> set campos_preco \<or> nome = ''volume_total''
              then Numero (ieee_div (to_numeric s) (Finite 100))
            else if nome = ''quantidade_negociada'' \<or> nome = ''total_negocios''
              then Numero (to_numeric s)
            else Texto s)) colunas_spec"

section \<open>data_processor.py: the metrics of each asset\<close>







section \<open>Sample tape and sample frames\<close>

text \<open>
  Stand-ins for the two pandas parsers on the strings the tape holds: unsigned decimal
  digits. A string with any other character does not parse: the numeric stand-in gives
  NaN, and the date stand-in gives \<open>None\<close>, as \<open>pd.to_datetime\<close> raises on a date
  that does not match \<open>%Y%m%d\<close>. The parser itself takes the real parsers as
  parameters.
\<close>

definition digito :: "char \<Rightarrow> nat option" where
  "digito c = (let n = of_char c :: nat in if 48 \<le> n \<and> n \<le> 57 then Some (n - 48) else None)"

fun ler_digitos :: "nat \<Rightarrow> string \<Rightarrow> nat option" where
  "ler_digitos acc [] = Some acc"
| "ler_digitos acc (c # cs) =
     (case digito c of None \<Rightarrow> None | Some d \<Rightarrow> ler_digitos (10 * acc + d) cs)"

definition to_numeric_digitos :: "string \<Rightarrow> ieee" where
  "to_numeric_digitos s =
     (if s = [] then NaN
      else case ler_digitos 0 s of None \<Rightarrow> NaN | Some n \<Rightarrow> Finite (real n))"

definition to_datetime_digitos :: "string \<Rightarrow> nat option" where
  "to_datetime_digitos s = (if length s = 8 then ler_digitos 0 s else None)"

text \<open>
  One tape line of type 01 for the ticker PETR4 on 2024-01-02, with an opening price of
  37.50, a closing price of 37.78 and a traded value of 1234567.89; a line of the day
  before with non-numeric content in the opening-price field; a line with non-numeric
  content in the date field; and a tape with a header, the first two lines, later day
  first, and a trailer.
\<close>

definition linha_exemplo :: string where
  "linha_exemplo =
     ''012024010202PETR4       010PETROBRAS   PN      N2   R$  ''
     @ ''0000000003750'' @ ''0000000003800'' @ ''0000000003700'' @ ''0000000003760''
     @ ''0000000003778'' @ ''0000000003777'' @ ''0000000003779''
     @ ''45000'' @ ''000000000032500000'' @ ''000000000123456789''
     @ ''0000000000000'' @ ''0'' @ ''99991231'' @ ''0000001'' @ ''0000000000000''
     @ ''BRPETRACNPR6'' @ ''190'' @ [CHR 0x0A]"

definition linha_malformada :: string where
  "linha_malformada =
     ''012024010102PETR4       010PETROBRAS   PN      N2   R$  ''
     @ ''000000000ABCD'' @ ''0000000003800'' @ ''0000000003700'' @ ''0000000003760''
     @ ''0000000003778'' @ ''0000000003777'' @ ''0000000003779''
     @ ''45000'' @ ''000000000032500000'' @ ''000000000123456789''
     @ ''0000000000000'' @ ''0'' @ ''99991231'' @ ''0000001'' @ ''0000000000000''
     @ ''BRPETRACNPR6'' @ ''190'' @ [CHR 0x0A]"

definition linha_data_invalida :: string where
  "linha_data_invalida =
     ''012024AB0202PETR4       010PETROBRAS   PN      N2   R$  ''
     @ ''0000000003750'' @ ''0000000003800'' @ ''0000000003700'' @ ''0000000003760''
     @ ''0000000003778'' @ ''0000000003777'' @ ''0000000003779''
     @ ''45000'' @ ''000000000032500000'' @ ''000000000123456789''
     @ ''0000000000000'' @ ''0'' @ ''99991231'' @ ''0000001'' @ ''0000000000000''
     @ ''BRPETRACNPR6'' @ ''190'' @ [CHR 0x0A]"

definition cabecalho :: string where
  "cabecalho = ''00COTAHIST.2024BOVESPA 20241230'' @ [CHR 0x0A]"

definition rodape :: string where
  "rodape = ''99COTAHIST.2024BOVESPA 2024123000000000004'' @ [CHR 0x0A]"

definition tape_exemplo :: "string list" where
  "tape_exemplo = [cabecalho, linha_exemplo, linha_malformada, rodape]"





section \<open>Properties of the model builder\<close>

lemma construir_modelo_InrE:
  assumes "construir_modelo cfg met = Inr m"
  obtains vB vR vT vLmin vLmax M where
    "cfg ''orcamento'' = Some vB" "cfg ''risco_maximo'' = Some vR"
    "cfg ''retorno_minimo'' = Some vT" "cfg ''num_ativos_min'' = Some vLmin"
    "cfg ''num_ativos_max'' = Some vLmax" "max_lotes (num vB) met = Inr M"
    "variaveis m =
       map (\<lambda>i. (X i, BINARY, 0)) (index met) @ map (\<lambda>i. (Y i, INTEGER, 0)) (index met)
       @ (if truthy (dict_get cfg ''diversificacao_setor'' (PyBool False))
          then map (\<lambda>s. (Z s, BINARY, 0)) (unique (map (setor met) (index met))) else [])"
    "restricoes m =
       [Constr ''orcamento'' (investimento met (index met)) LE (Const (num vB)),
        Constr ''risco''
          (Sub (Quicksum (map (\<lambda>i. Scale (desvio_padrao met i * preco_atual met i) (V (Y i)))
                  (index met)))
               (Scale (num vR) (investimento met (index met)))) LE (Const 0),
        Constr ''retorno_min''
          (Sub (Quicksum (map (\<lambda>i. Scale (retorno_esperado met i * preco_atual met i) (V (Y i)))
                  (index met)))
               (Scale (num vT) (investimento met (index met)))) GE (Const 0),
        Constr ''min_ativos'' (Quicksum (map (\<lambda>i. V (X i)) (index met))) GE (Const (num vLmin)),
        Constr ''max_ativos'' (Quicksum (map (\<lambda>i. V (X i)) (index met))) LE (Const (num vLmax))]
       @ restricoes_setor cfg met (num vB)
       @ restricoes_max_ativo cfg met (num vB)
       @ restricoes_negativos cfg met
       @ restricoes_consistencia met M"
proof -
  from assms obtain vB vR vT vLmin vLmax where
    k: "cfg ''orcamento'' = Some vB" "cfg ''risco_maximo'' = Some vR"
       "cfg ''retorno_minimo'' = Some vT" "cfg ''num_ativos_min'' = Some vLmin"
       "cfg ''num_ativos_max'' = Some vLmax"
    unfolding construir_modelo_def by (auto split: option.splits)
  with assms obtain M where M: "max_lotes (num vB) met = Inr M"
    unfolding construir_modelo_def by (auto split: sum.splits simp: Let_def)
  from assms k M have m: "m = \<lparr>
      variaveis =
       map (\<lambda>i. (X i, BINARY, 0)) (index met) @ map (\<lambda>i. (Y i, INTEGER, 0)) (index met)
       @ (if truthy (dict_get cfg ''diversificacao_setor'' (PyBool False))
          then map (\<lambda>s. (Z s, BINARY, 0)) (unique (map (setor met) (index met))) else []),
      objetivo = Quicksum (map (\<lambda>i. Scale (retorno_esperado met i * preco_atual met i) (V (Y i))) (index met)),
      restricoes = 
       [Constr ''orcamento'' (investimento met (index met)) LE (Const (num vB)),
        Constr ''risco''
          (Sub (Quicksum (map (\<lambda>i. Scale (desvio_padrao met i * preco_atual met i) (V (Y i)))
                  (index met)))
               (Scale (num vR) (investimento met (index met)))) LE (Const 0),
        Constr ''retorno_min''
          (Sub (Quicksum (map (\<lambda>i. Scale (retorno_esperado met i * preco_atual met i) (V (Y i)))
                  (index met)))
               (Scale (num vT) (investimento met (index met)))) GE (Const 0),
        Constr ''min_ativos'' (Quicksum (map (\<lambda>i. V (X i)) (index met))) GE (Const (num vLmin)),
        Constr ''max_ativos'' (Quicksum (map (\<lambda>i. V (X i)) (index met))) LE (Const (num vLmax))]
       @ restricoes_setor cfg met (num vB)
       @ restricoes_max_ativo cfg met (num vB)
       @ restricoes_negativos cfg met
       @ restricoes_consistencia met M \<rparr>"
    unfolding construir_modelo_def by (simp add: Let_def)
  show thesis
    by (rule that[OF k M]) (simp_all add: m)
qed

lemma unique_set [simp]: "set (unique xs) = set xs"
  by (simp add: unique_def)

lemma eval_investimento:
  "eval_expr a (investimento met J) = sum_list (map (\<lambda>i. preco_atual met i * a (Y i)) J)"
  by (simp add: investimento_def comp_def)

lemma feasible_asset:
  assumes "construir_modelo cfg met = Inr m" and "feasible m a" and "i \<in> set (index met)"
  obtains M where "max_lotes (num (the (cfg ''orcamento''))) met = Inr M"
    and "a (X i) = 0 \<or> a (X i) = 1" and "a (Y i) \<in> \<int>" and "0 \<le> a (Y i)"
    and "a (Y i) \<le> of_int M * a (X i)" and "a (X i) \<le> a (Y i)"
proof -
  from assms(1) obtain vB M where B: "cfg ''orcamento'' = Some vB"
    and M: "max_lotes (num vB) met = Inr M"
    and vs: "set (map (\<lambda>i. (X i, BINARY, 0)) (index met) @ map (\<lambda>i. (Y i, INTEGER, 0)) (index met))
              \<subseteq> set (variaveis m)"
    and cs: "set (restricoes_consistencia met M) \<subseteq> set (restricoes m)"
    by (rule construir_modelo_InrE) auto
  from assms(2) have dom: "\<And>d. d \<in> set (variaveis m) \<Longrightarrow> in_domain a d"
    and con: "\<And>c. c \<in> set (restricoes m) \<Longrightarrow> holds a c"
    by (simp_all add: feasible_def list_all_iff)
  from assms(3) vs have "(X i, BINARY, 0) \<in> set (variaveis m)"
    and "(Y i, INTEGER, 0) \<in> set (variaveis m)"
    by auto
  then have d: "in_domain a (X i, BINARY, 0)" "in_domain a (Y i, INTEGER, 0)"
    by (simp_all only: dom)
  from assms(3)
  have "Constr (''consistencia_max_'' @ i) (V (Y i)) LE (Scale (of_int M) (V (X i)))
          \<in> set (restricoes_consistencia met M)"
    and "Constr (''consistencia_min_'' @ i) (V (Y i)) GE (Scale 1 (V (X i)))
          \<in> set (restricoes_consistencia met M)"
    by (auto simp: restricoes_consistencia_def)
  with cs have "holds a (Constr (''consistencia_max_'' @ i) (V (Y i)) LE (Scale (of_int M) (V (X i))))"
    and "holds a (Constr (''consistencia_min_'' @ i) (V (Y i)) GE (Scale 1 (V (X i))))"
    by (blast intro: con)+
  with d M B show thesis by (intro that[of M]) simp_all
qed

text \<open>
  Claim C7. In every assignment that satisfies the model built by \<open>construir_modelo\<close>,
  for every asset \<open>i\<close> of the universe: \<open>x_i = 1\<close> exactly when \<open>y_i \<ge> 1\<close>, and
  \<open>x_i = 0\<close> exactly when \<open>y_i = 0\<close>. The coupling holds for every value of the
  big-M bound, in particular for \<open>M \<ge> 1\<close>.
\<close>

theorem acoplamento_selecao_quantidade:
  assumes "construir_modelo cfg met = Inr m" and "feasible m a" and "i \<in> set (index met)"
  shows "(a (X i) = 1 \<longleftrightarrow> 1 \<le> a (Y i)) \<and> (a (X i) = 0 \<longleftrightarrow> a (Y i) = 0)"
proof -
  from assms obtain M where "a (X i) = 0 \<or> a (X i) = 1" "0 \<le> a (Y i)"
    "a (Y i) \<le> of_int M * a (X i)" "a (X i) \<le> a (Y i)"
    by (rule feasible_asset)
  then show ?thesis by auto
qed

text \<open>The coupling at asset A of the worked scenario.\<close>

lemma max_lotes_exemplo: "max_lotes 10000 metricas_exemplo = Inr 200"
  by (simp add: max_lotes_def metricas_exemplo_def py_int_def)

lemma exemplo_feasible:
  "\<exists>m. construir_modelo config_exemplo metricas_exemplo = Inr m
       \<and> feasible m (valor solve_exemplo)"
  by (simp add: construir_modelo_def config_exemplo_def max_lotes_exemplo feasible_def
      restricoes_setor_def restricoes_max_ativo_def restricoes_negativos_def
      restricoes_consistencia_def dict_get_def investimento_def)
     (simp add: metricas_exemplo_def solve_exemplo_def)

theorem acoplamento_selecao_quantidade_witness:
  "\<exists>m. construir_modelo config_exemplo metricas_exemplo = Inr m
      \<and> feasible m (valor solve_exemplo)
      \<and> ''A'' \<in> set (index metricas_exemplo)
      \<and> (valor solve_exemplo (X ''A'') = 1 \<longleftrightarrow> 1 \<le> valor solve_exemplo (Y ''A''))
      \<and> (valor solve_exemplo (X ''A'') = 0 \<longleftrightarrow> valor solve_exemplo (Y ''A'') = 0)"
proof -
  from exemplo_feasible obtain m where m: "construir_modelo config_exemplo metricas_exemplo = Inr m"
    and f: "feasible m (valor solve_exemplo)" by blast
  have i: "''A'' \<in> set (index metricas_exemplo)" by (simp add: metricas_exemplo_def)
  from acoplamento_selecao_quantidade[OF m f i] m f i show ?thesis by blast
qed


lemma feasible_negativo:
  assumes "construir_modelo cfg met = Inr m" and "feasible m a" and "i \<in> set (index met)"
    and "retorno_esperado met i < 0"
    and "truthy (dict_get cfg ''excluir_retorno_negativo'' (PyBool True))"
  shows "a (Y i) = 0"
proof -
  from assms(1) have cs: "set (restricoes_negativos cfg met) \<subseteq> set (restricoes m)"
    by (rule construir_modelo_InrE) auto
  from assms(3-5) have "Constr (''no_negative_'' @ i) (V (Y i)) EQ (Const 0)
      \<in> set (restricoes_negativos cfg met)"
    by (simp add: restricoes_negativos_def)
  with cs have "Constr (''no_negative_'' @ i) (V (Y i)) EQ (Const 0) \<in> set (restricoes m)"
    by blast
  with assms(2) have "holds a (Constr (''no_negative_'' @ i) (V (Y i)) EQ (Const 0))"
    unfolding feasible_def list_all_iff by blast
  then show ?thesis by simp
qed

text \<open>
  Claim C10. When the configuration has no key \<open>excluir_retorno_negativo\<close>, the builder
  produces the very model it produces with the key set to \<open>True\<close>, and every feasible
  assignment has \<open>y_i = 0\<close> for every asset with a negative expected return.
\<close>

theorem exclusao_negativos_por_omissao:
  assumes "cfg ''excluir_retorno_negativo'' = None"
  shows "construir_modelo cfg met
           = construir_modelo (cfg(''excluir_retorno_negativo'' \<mapsto> PyBool True)) met
       \<and> (\<forall>m a i. construir_modelo cfg met = Inr m \<and> feasible m a \<and> i \<in> set (index met)
              \<and> retorno_esperado met i < 0 \<longrightarrow> a (Y i) = 0)"
proof
  let ?cfg = "cfg(''excluir_retorno_negativo'' \<mapsto> PyBool True)"
  have "restricoes_negativos ?cfg met = restricoes_negativos cfg met"
    using assms by (simp add: restricoes_negativos_def dict_get_def)
  moreover have "restricoes_setor ?cfg met = restricoes_setor cfg met"
    by (simp add: restricoes_setor_def dict_get_def fun_eq_iff)
  moreover have "restricoes_max_ativo ?cfg met = restricoes_max_ativo cfg met"
    by (simp add: restricoes_max_ativo_def dict_get_def fun_eq_iff)
  moreover have "dict_get ?cfg ''diversificacao_setor'' (PyBool False)
      = dict_get cfg ''diversificacao_setor'' (PyBool False)"
    by (simp add: dict_get_def)
  ultimately show "construir_modelo cfg met = construir_modelo ?cfg met"
    by (simp add: construir_modelo_def Let_def split: option.splits sum.splits)
next
  from assms have "truthy (dict_get cfg ''excluir_retorno_negativo'' (PyBool True))"
    by (simp add: dict_get_def)
  then show "\<forall>m a i. construir_modelo cfg met = Inr m \<and> feasible m a \<and> i \<in> set (index met)
              \<and> retorno_esperado met i < 0 \<longrightarrow> a (Y i) = 0"
    by (blast intro: feasible_negativo)
qed

text \<open>The worked scenario has no such key, and its asset C has a negative return.\<close>

theorem exclusao_negativos_por_omissao_witness:
  "config_exemplo ''excluir_retorno_negativo'' = None
   \<and> construir_modelo config_exemplo metricas_exemplo
       = construir_modelo (config_exemplo(''excluir_retorno_negativo'' \<mapsto> PyBool True))
           metricas_exemplo
   \<and> (\<exists>m. construir_modelo config_exemplo metricas_exemplo = Inr m
          \<and> feasible m (valor solve_exemplo))
   \<and> ''C'' \<in> set (index metricas_exemplo)
   \<and> retorno_esperado metricas_exemplo ''C'' < 0
   \<and> valor solve_exemplo (Y ''C'') = 0"
proof -
  have k: "config_exemplo ''excluir_retorno_negativo'' = None"
    by (simp add: config_exemplo_def)
  have i: "''C'' \<in> set (index metricas_exemplo)" "retorno_esperado metricas_exemplo ''C'' < 0"
    by (simp_all add: metricas_exemplo_def)
  from exclusao_negativos_por_omissao[of config_exemplo metricas_exemplo] k
  have "construir_modelo config_exemplo metricas_exemplo
          = construir_modelo (config_exemplo(''excluir_retorno_negativo'' \<mapsto> PyBool True))
              metricas_exemplo"
    and "\<And>m a. construir_modelo config_exemplo metricas_exemplo = Inr m \<Longrightarrow> feasible m a
           \<Longrightarrow> a (Y ''C'') = 0"
    using i by blast+
  with exemplo_feasible k i show ?thesis by blast
qed


lemma min_list_le: "x \<in> set xs \<Longrightarrow> min_list xs \<le> (x::real)"
  by (cases "xs = []") (simp_all add: min_list_Min)

lemma min_list_mem: "xs \<noteq> [] \<Longrightarrow> min_list xs \<in> set (xs::real list)"
  using Min_in[of "set xs"] by (simp add: min_list_Min)

text \<open>
  Claim C6. For a non-empty universe with strictly positive prices and a budget
  \<open>B \<ge> 0\<close>, the bound \<open>max_lotes\<close> is computed without error, equals the floor of
  \<open>B\<close> over the least price, is at least \<open>floor (B / price_i)\<close> for every asset, and
  so admits every lot count \<open>n\<close> of one asset that the budget affords.
\<close>

theorem max_lotes_cobre_maximo_por_ativo:
  assumes "index met \<noteq> []" and "\<forall>i\<in>set (index met). 0 < preco_atual met i" and "0 \<le> B"
  shows "\<exists>M. max_lotes B met = Inr M
           \<and> M = \<lfloor>B / Min (preco_atual met ` set (index met))\<rfloor>
           \<and> (\<forall>i\<in>set (index met). \<lfloor>B / preco_atual met i\<rfloor> \<le> M)
           \<and> (\<forall>i\<in>set (index met). \<forall>n::int. of_int n * preco_atual met i \<le> B \<longrightarrow> n \<le> M)"
proof -
  let ?ps = "map (preco_atual met) (index met)"
  let ?m = "min_list ?ps"
  from assms(1) have ne: "?ps \<noteq> []" by simp
  from min_list_mem[OF ne] assms(2) have pos: "0 < ?m" by auto
  with assms(3) have nonneg: "0 \<le> B / ?m" by simp
  have M: "max_lotes B met = Inr \<lfloor>B / ?m\<rfloor>"
    using assms(1) pos nonneg by (simp add: max_lotes_def Let_def py_int_def)
  have Min: "?m = Min (preco_atual met ` set (index met))"
    using ne by (simp add: min_list_Min)
  have le: "\<lfloor>B / preco_atual met i\<rfloor> \<le> \<lfloor>B / ?m\<rfloor>" if "i \<in> set (index met)" for i
  proof -
    from that have "?m \<le> preco_atual met i" by (intro min_list_le) simp
    with pos assms(3) have "B / preco_atual met i \<le> B / ?m"
      by (intro divide_left_mono) (auto intro: mult_pos_pos less_le_trans)
    then show ?thesis by (rule floor_mono)
  qed
  have aff: "n \<le> \<lfloor>B / ?m\<rfloor>" if "i \<in> set (index met)" and "of_int n * preco_atual met i \<le> B"
    for i and n :: int
  proof -
    from that(1) assms(2) have "0 < preco_atual met i" by simp
    with that(2) have "of_int n \<le> B / preco_atual met i" by (simp add: pos_le_divide_eq)
    then have "n \<le> \<lfloor>B / preco_atual met i\<rfloor>" by (simp add: le_floor_iff)
    with le[OF that(1)] show ?thesis by simp
  qed
  from M Min le aff show ?thesis by auto
qed

text \<open>In the worked scenario the bound is 200, and 50 lots of C are affordable.\<close>

theorem max_lotes_cobre_maximo_por_ativo_witness:
  "index metricas_exemplo \<noteq> []
   \<and> list_all (\<lambda>i. 0 < preco_atual metricas_exemplo i) (index metricas_exemplo)
   \<and> max_lotes 10000 metricas_exemplo = Inr 200
   \<and> \<lfloor>10000 / preco_atual metricas_exemplo ''C''\<rfloor> \<le> (200::int)"
proof -
  have ne: "index metricas_exemplo \<noteq> []" by (simp add: metricas_exemplo_def)
  have pos: "\<forall>i\<in>set (index metricas_exemplo). 0 < preco_atual metricas_exemplo i"
    by (simp add: metricas_exemplo_def)
  have i: "''C'' \<in> set (index metricas_exemplo)" by (simp add: metricas_exemplo_def)
  from max_lotes_cobre_maximo_por_ativo[OF ne pos, of 10000] max_lotes_exemplo i
  have "\<lfloor>10000 / preco_atual metricas_exemplo ''C''\<rfloor> \<le> (200::int)" by auto
  with ne pos max_lotes_exemplo show ?thesis by (simp add: list_all_iff)
qed


section \<open>Properties of the extracted solution\<close>

lemma sum_list_filter_zero:
  fixes f :: "'a \<Rightarrow> real"
  assumes "\<And>i. i \<in> set xs \<Longrightarrow> \<not> P i \<Longrightarrow> f i = 0"
  shows "sum_list (map f (filter P xs)) = sum_list (map f xs)"
  using assms by (induction xs) auto

lemma sum_list_binary_count:
  fixes x :: "'a \<Rightarrow> real"
  assumes "\<And>i. i \<in> set xs \<Longrightarrow> x i = 0 \<or> x i = 1"
  shows "sum_list (map x xs) = real (length (filter (\<lambda>i. 1 / 2 < x i) xs))"
  using assms
proof (induction xs)
  case Nil
  then show ?case by simp
next
  case (Cons y ys)
  from Cons.prems have "x y = 0 \<or> x y = 1" by simp
  moreover from Cons have "sum_list (map x ys) = real (length (filter (\<lambda>i. 1 / 2 < x i) ys))"
    by simp
  ultimately show ?case by auto
qed

lemma py_round_Ints: "r \<in> \<int> \<Longrightarrow> of_int (py_round r) = r"
  by (auto simp: py_round_def Let_def elim!: Ints_cases)

lemma sum_list_pos_member:
  fixes f :: "'a \<Rightarrow> real"
  assumes "\<And>i. i \<in> set xs \<Longrightarrow> 0 \<le> f i" and "j \<in> set xs" and "0 < f j"
  shows "0 < sum_list (map f xs)"
  using assms
proof (induction xs)
  case Nil
  then show ?case by simp
next
  case (Cons x xs)
  have rest: "0 \<le> sum_list (map f xs)"
    using Cons.prems(1) by (intro sum_list_nonneg) auto
  show ?case
  proof (cases "j = x")
    case True
    with Cons.prems(3) rest show ?thesis by simp
  next
    case False
    with Cons.prems have "j \<in> set xs" by simp
    with Cons.IH Cons.prems have "0 < sum_list (map f xs)" by simp
    moreover have "0 \<le> f x" using Cons.prems(1) by simp
    ultimately show ?thesis by simp
  qed
qed

lemma extrair_solucao_Inr:
  assumes "extrair_solucao met sol = Inr res"
  shows "ativos_selecionados met sol \<noteq> []"
    and "carteira res = map (linha_carteira met sol) (ativos_selecionados met sol)"
    and "num_ativos res = length (ativos_selecionados met sol)"
    and "investimento_total res
           = sum_list (map (\<lambda>i. of_int (py_round (valor sol (Y i))) * preco_atual met i)
               (ativos_selecionados met sol))"
    and "retorno_total res
           = (if 0 < investimento_total res
              then sum_list (map (\<lambda>i. retorno_esperado met i * preco_atual met i * valor sol (Y i))
                     (ativos_selecionados met sol)) / investimento_total res
              else 0)"
    and "risco_total res
           = (if 0 < investimento_total res
              then sum_list (map (\<lambda>i. desvio_padrao met i * preco_atual met i * valor sol (Y i))
                     (ativos_selecionados met sol)) / investimento_total res
              else 0)"
  using assms
  by (auto simp: extrair_solucao_def Let_def linha_carteira_def comp_def split: if_splits)

lemma max_lotes_positive_price:
  assumes "max_lotes B met = Inr M" and "1 \<le> M" and "0 \<le> B" and "i \<in> set (index met)"
  shows "0 < preco_atual met i"
proof -
  let ?mn = "min_list (map (preco_atual met) (index met))"
  from assms(4) have ne: "index met \<noteq> []" by auto
  with assms(1) have nz: "?mn \<noteq> 0" and M: "M = py_int (B / ?mn)"
    by (auto simp: max_lotes_def Let_def split: if_splits)
  have "0 < ?mn"
  proof (rule ccontr)
    assume "\<not> 0 < ?mn"
    with nz have "?mn < 0" by simp
    with assms(3) have "B / ?mn \<le> 0" by (simp add: divide_nonneg_neg)
    then have "py_int (B / ?mn) \<le> 0"
      by (auto simp: py_int_def ceiling_le_iff)
    with M assms(2) show False by simp
  qed
  moreover from assms(4) have "?mn \<le> preco_atual met i" by (intro min_list_le) simp
  ultimately show ?thesis by simp
qed

text \<open>
  With solver values that are exactly integers (a feasible assignment) and a budget
  \<open>B \<ge> 0\<close>, a result returned by \<open>otimizar\<close> respects all four limits: its number of
  assets lies between \<open>num_ativos_min\<close> and \<open>num_ativos_max\<close>, its total investment is
  at most \<open>B\<close>, its weighted risk is at most \<open>risco_maximo\<close> and its weighted return is
  at least \<open>retorno_minimo\<close>.
\<close>

lemma resultado_respeita_restricoes:
  assumes m: "construir_modelo cfg met = Inr m"
    and feas: "feasible m (valor sol)"
    and res: "otimizar met sol = Inr (Some res)"
    and B: "cfg ''orcamento'' = Some vB"
    and R: "cfg ''risco_maximo'' = Some vR"
    and T: "cfg ''retorno_minimo'' = Some vT"
    and Lmin: "cfg ''num_ativos_min'' = Some vLmin"
    and Lmax: "cfg ''num_ativos_max'' = Some vLmax"
    and Bpos: "0 \<le> num vB"
  shows "num vLmin \<le> real (num_ativos res) \<and> real (num_ativos res) \<le> num vLmax
       \<and> investimento_total res \<le> num vB
       \<and> risco_total res \<le> num vR
       \<and> num vT \<le> retorno_total res"
proof -
  define a where "a = valor sol"
  define I where "I = index met"
  define sel where "sel = ativos_selecionados met sol"
  define p where "p = preco_atual met"
  define inv where "inv = sum_list (map (\<lambda>i. p i * a (Y i)) I)"
  define ret where "ret = sum_list (map (\<lambda>i. retorno_esperado met i * p i * a (Y i)) I)"
  define rsk where "rsk = sum_list (map (\<lambda>i. desvio_padrao met i * p i * a (Y i)) I)"
  from res have ext: "extrair_solucao met sol = Inr res"
    by (auto simp: otimizar_def split: if_splits sum.splits)
  note e = extrair_solucao_Inr[OF ext, folded sel_def a_def p_def]
  from m B R T Lmin Lmax obtain M where M: "max_lotes (num vB) met = Inr M"
    and rs: "list_all (holds a)
       [Constr ''orcamento'' (investimento met I) LE (Const (num vB)),
        Constr ''risco''
          (Sub (Quicksum (map (\<lambda>i. Scale (desvio_padrao met i * preco_atual met i) (V (Y i))) I))
               (Scale (num vR) (investimento met I))) LE (Const 0),
        Constr ''retorno_min''
          (Sub (Quicksum (map (\<lambda>i. Scale (retorno_esperado met i * preco_atual met i) (V (Y i))) I))
               (Scale (num vT) (investimento met I))) GE (Const 0),
        Constr ''min_ativos'' (Quicksum (map (\<lambda>i. V (X i)) I)) GE (Const (num vLmin)),
        Constr ''max_ativos'' (Quicksum (map (\<lambda>i. V (X i)) I)) LE (Const (num vLmax))]"
    using feas unfolding I_def a_def feasible_def
    by (elim construir_modelo_InrE) simp
  from rs have c_budget: "inv \<le> num vB"
    and c_risk: "rsk - num vR * inv \<le> 0"
    and c_ret: "0 \<le> ret - num vT * inv"
    and c_min: "num vLmin \<le> sum_list (map (\<lambda>i. a (X i)) I)"
    and c_max: "sum_list (map (\<lambda>i. a (X i)) I) \<le> num vLmax"
    by (simp_all add: eval_investimento comp_def inv_def rsk_def ret_def p_def)
  have asset: "a (X i) = 0 \<or> a (X i) = 1" "a (Y i) \<in> \<int>" "0 \<le> a (Y i)"
    "a (Y i) \<le> of_int M * a (X i)" "a (X i) \<le> a (Y i)" if "i \<in> set I" for i
    using feasible_asset[OF m feas, of i] that M B unfolding I_def a_def by auto
  have sel_I: "sel = filter (\<lambda>i. 1 / 2 < a (X i)) I"
    by (simp add: sel_def ativos_selecionados_def a_def I_def)
  have unsel: "a (Y i) = 0" if "i \<in> set I" "\<not> 1 / 2 < a (X i)" for i
    using asset[OF that(1)] that(2) by auto
  have count: "real (num_ativos res) = sum_list (map (\<lambda>i. a (X i)) I)"
    using asset(1) by (simp add: e(3) sel_I sum_list_binary_count)
  have "investimento_total res = sum_list (map (\<lambda>i. p i * a (Y i)) sel)"
    unfolding e(4)
    by (rule arg_cong[where f = sum_list], rule map_cong)
       (auto simp: sel_I py_round_Ints asset(2))
  also have "\<dots> = inv"
    unfolding inv_def sel_I by (rule sum_list_filter_zero) (simp add: unsel)
  finally have total: "investimento_total res = inv" .
  have num_ret: "sum_list (map (\<lambda>i. retorno_esperado met i * p i * a (Y i)) sel) = ret"
    unfolding ret_def sel_I by (rule sum_list_filter_zero) (simp add: unsel)
  have num_rsk: "sum_list (map (\<lambda>i. desvio_padrao met i * p i * a (Y i)) sel) = rsk"
    unfolding rsk_def sel_I by (rule sum_list_filter_zero) (simp add: unsel)
  from e(1) obtain j where "j \<in> set sel"
    by (cases sel) auto
  then have j: "j \<in> set I" "1 / 2 < a (X j)"
    by (simp_all add: sel_I)
  with asset[OF j(1)] have yj: "1 \<le> a (Y j)" and "a (Y j) \<le> of_int M" by auto
  then have "1 \<le> M" by linarith
  from max_lotes_positive_price[OF M this Bpos] have ppos: "0 < p i" if "i \<in> set I" for i
    using that by (simp add: p_def I_def)
  have "0 < inv"
    unfolding inv_def
  proof (rule sum_list_pos_member[where j = j])
    show "0 \<le> p i * a (Y i)" if "i \<in> set I" for i
      using ppos[OF that] asset(3)[OF that] by simp
    show "j \<in> set I" by (rule j(1))
    show "0 < p j * a (Y j)" using ppos[OF j(1)] yj by simp
  qed
  with total have tpos: "0 < investimento_total res" by simp
  have "risco_total res = rsk / inv" using e(6) tpos num_rsk total by simp
  moreover have "rsk / inv \<le> num vR" using c_risk \<open>0 < inv\<close> by (simp add: pos_divide_le_eq)
  moreover have "retorno_total res = ret / inv" using e(5) tpos num_ret total by simp
  moreover have "num vT \<le> ret / inv" using c_ret \<open>0 < inv\<close> by (simp add: pos_le_divide_eq)
  ultimately show ?thesis using count c_min c_max c_budget total by simp
qed

text \<open>The worked scenario returns a result within all four limits.\<close>

lemma exemplo_otimizar:
  "\<exists>res. otimizar metricas_exemplo solve_exemplo = Inr (Some res)"
  by (simp add: otimizar_def extrair_solucao_def ativos_selecionados_def Let_def
      solve_exemplo_def metricas_exemplo_def)

lemma resultado_respeita_restricoes_exemplo:
  "\<exists>m res. construir_modelo config_exemplo metricas_exemplo = Inr m
      \<and> feasible m (valor solve_exemplo)
      \<and> otimizar metricas_exemplo solve_exemplo = Inr (Some res)
      \<and> 1 \<le> real (num_ativos res) \<and> real (num_ativos res) \<le> 2
      \<and> investimento_total res \<le> 10000
      \<and> risco_total res \<le> 25 / 100
      \<and> 10 / 100 \<le> retorno_total res"
proof -
  from exemplo_feasible obtain m where m: "construir_modelo config_exemplo metricas_exemplo = Inr m"
    and f: "feasible m (valor solve_exemplo)" by blast
  from exemplo_otimizar obtain res where r: "otimizar metricas_exemplo solve_exemplo = Inr (Some res)"
    by blast
  have "num (PyInt 1) \<le> real (num_ativos res) \<and> real (num_ativos res) \<le> num (PyInt 2)
       \<and> investimento_total res \<le> num (PyFloat 10000)
       \<and> risco_total res \<le> num (PyFloat (25 / 100))
       \<and> num (PyFloat (10 / 100)) \<le> retorno_total res"
    by (rule resultado_respeita_restricoes[OF m f r]) (simp_all add: config_exemplo_def)
  with m f r show ?thesis by auto
qed
lemma feasible_aceita: "feasible m a \<Longrightarrow> aceita m a"
proof -
  have "in_domain_tol IntFeasTol a d" if "in_domain a d" for d
  proof -
    obtain v t l where d: "d = (v, t, l)" by (cases d)
    show ?thesis
    proof (cases t)
      case BINARY
      with that d show ?thesis by (auto simp: IntFeasTol_def)
    next
      case INTEGER
      with that d obtain k :: int where "a v = of_int k" and "l \<le> a v"
        by (auto elim: Ints_cases)
      moreover have "\<lfloor>of_int k + (1 / 2 :: real)\<rfloor> = k" by linarith
      ultimately show ?thesis using INTEGER d by (simp add: IntFeasTol_def)
    qed
  qed
  then show "feasible m a \<Longrightarrow> aceita m a"
    unfolding feasible_def aceita_def list_all_iff by blast
qed



section \<open>Sector diversification\<close>

lemma max_lotes_setores: "max_lotes 100000 metricas_setores = Inr 1000"
  by (simp add: max_lotes_def metricas_setores_def py_int_def)

lemma unique_setores:
  "unique (map (setor metricas_setores) (index metricas_setores)) = [''Financeiro'', ''Energia'']"
  by (simp add: unique_def metricas_setores_def)

text \<open>
  The cap per sector holds in every feasible assignment: the spend on the sector of any
  asset is at most \<open>alpha_setor_max\<close> times the budget.
\<close>

lemma construir_modelo_objetivo:
  assumes "construir_modelo cfg met = Inr m"
  shows "objetivo m
    = Quicksum (map (\<lambda>i. Scale (retorno_esperado met i * preco_atual met i) (V (Y i))) (index met))"
  using assms
  by (auto simp: construir_modelo_def Let_def split: option.splits sum.splits)

lemma limite_por_setor:
  assumes "construir_modelo cfg met = Inr m" and "feasible m a"
    and "truthy (dict_get cfg ''diversificacao_setor'' (PyBool False))"
    and "cfg ''orcamento'' = Some vB" and "i \<in> set (index met)"
  shows "eval_expr a (investimento met (filter (\<lambda>j. setor met j = setor met i) (index met)))
           \<le> num (dict_get cfg ''alpha_setor_max'' (PyFloat (3 / 10))) * num vB"
proof -
  let ?s = "setor met i"
  let ?as = "filter (\<lambda>j. setor met j = ?s) (index met)"
  let ?c = "Constr (''setor_'' @ ?s @ ''_max'') (investimento met ?as) LE
              (Const (num (dict_get cfg ''alpha_setor_max'' (PyFloat (3 / 10))) * num vB))"
  from assms(5) have ne: "?as \<noteq> []" by (auto simp: filter_empty_conv)
  from assms(5) have s: "?s \<in> set (unique (map (setor met) (index met)))" by simp
  from assms(3) ne s have "?c \<in> set (restricoes_setor cfg met (num vB))"
    by (auto simp: restricoes_setor_def Let_def intro!: bexI[where x = ?s])
  moreover from assms(1,4)
  have "set (restricoes_setor cfg met (num vB)) \<subseteq> set (restricoes m)"
    by (elim construir_modelo_InrE) auto
  ultimately have "holds a ?c"
    using assms(2) unfolding feasible_def list_all_iff by blast
  then show ?thesis by simp
qed

text \<open>
  Claim C2. With sector diversification enabled, the count of sectors that carry
  investment should be at least \<open>num_setores_min\<close>. The model built for the aggressive
  preset (at least 2 sectors, no minimum share per sector) accepts an assignment that
  invests in one sector only: an indicator \<open>z_s = 1\<close> is allowed on a sector with no
  investment, since the only constraint tying \<open>z_s\<close> to a positive spend is added when
  \<open>alpha_setor_min > 0\<close>.
\<close>

theorem setores_minimos_nao_garantidos:
  "\<exists>m. construir_modelo CENARIO_AGRESSIVO metricas_setores = Inr m
      \<and> feasible m valor_setores
      \<and> CENARIO_AGRESSIVO ''num_setores_min'' = Some (PyInt 2)
      \<and> setores_com_investimento metricas_setores valor_setores = [''Financeiro'']"
proof -
  have "\<exists>m. construir_modelo CENARIO_AGRESSIVO metricas_setores = Inr m \<and> feasible m valor_setores"
    by (simp add: construir_modelo_def CENARIO_AGRESSIVO_def max_lotes_setores feasible_def
        restricoes_setor_def restricoes_max_ativo_def restricoes_negativos_def
        restricoes_consistencia_def dict_get_def investimento_def unique_setores Let_def)
       (simp add: metricas_setores_def valor_setores_def investimento_def Let_def)
  moreover have "CENARIO_AGRESSIVO ''num_setores_min'' = Some (PyInt 2)"
    by (simp add: CENARIO_AGRESSIVO_def)
  moreover have "setores_com_investimento metricas_setores valor_setores = [''Financeiro'']"
    by (simp add: setores_com_investimento_def unique_setores investimento_def)
       (simp add: metricas_setores_def valor_setores_def)
  ultimately show ?thesis by blast
qed

text \<open>
  The assignment above is optimal for that model, and every optimal assignment invests
  in the sector Financeiro alone: the solver cannot return a portfolio over two sectors.
\<close>

lemma setores_otimo:
  assumes "construir_modelo CENARIO_AGRESSIVO metricas_setores = Inr m" and "feasible m a"
  shows "eval_expr a (objetivo m) \<le> eval_expr valor_setores (objetivo m)"
    and "eval_expr a (objetivo m) = eval_expr valor_setores (objetivo m)
           \<Longrightarrow> setores_com_investimento metricas_setores a = [''Financeiro'']"
proof -
  have idx: "index metricas_setores = [''AAAA3'', ''BBBB3'', ''CCCC3'', ''DDDD3'']"
    by (simp add: metricas_setores_def)
  have nonneg: "0 \<le> a (Y i)" if "i \<in> set (index metricas_setores)" for i
    using feasible_asset[OF assms that] by blast
  from assms(1) have "Constr ''orcamento'' (investimento metricas_setores (index metricas_setores))
      LE (Const (num (PyFloat 100000))) \<in> set (restricoes m)"
    by (elim construir_modelo_InrE) (simp add: CENARIO_AGRESSIVO_def)
  with assms(2) have "holds a (Constr ''orcamento''
      (investimento metricas_setores (index metricas_setores)) LE (Const (num (PyFloat 100000))))"
    unfolding feasible_def list_all_iff by blast
  then have budget: "100 * a (Y ''AAAA3'') + 100 * a (Y ''BBBB3'') + 100 * a (Y ''CCCC3'')
      + 100 * a (Y ''DDDD3'') \<le> 100000"
    by (simp add: eval_investimento idx) (simp add: metricas_setores_def)
  have obj: "eval_expr b (objetivo m) = 30 * b (Y ''AAAA3'') + 30 * b (Y ''BBBB3'')
      + 30 * b (Y ''CCCC3'') + 20 * b (Y ''DDDD3'')" for b
    by (simp add: construir_modelo_objetivo[OF assms(1)] idx comp_def)
       (simp add: metricas_setores_def)
  have opt: "eval_expr valor_setores (objetivo m) = 30000"
    by (simp add: obj valor_setores_def)
  have n: "0 \<le> a (Y ''AAAA3'')" "0 \<le> a (Y ''BBBB3'')" "0 \<le> a (Y ''CCCC3'')" "0 \<le> a (Y ''DDDD3'')"
    by (simp_all add: nonneg idx)
  show "eval_expr a (objetivo m) \<le> eval_expr valor_setores (objetivo m)"
    using budget n opt obj[of a] by linarith
  assume "eval_expr a (objetivo m) = eval_expr valor_setores (objetivo m)"
  then have e: "30 * a (Y ''AAAA3'') + 30 * a (Y ''BBBB3'') + 30 * a (Y ''CCCC3'')
      + 20 * a (Y ''DDDD3'') = 30000" using opt obj[of a] by simp
  with budget n have d: "a (Y ''DDDD3'') = 0" by linarith
  with e have f: "a (Y ''AAAA3'') + a (Y ''BBBB3'') + a (Y ''CCCC3'') = 1000" by linarith
  show "setores_com_investimento metricas_setores a = [''Financeiro'']"
    using d f
    by (simp add: setores_com_investimento_def unique_setores eval_investimento idx)
       (simp add: metricas_setores_def unique_def)
qed

section \<open>The empty portfolio\<close>

lemma extrair_solucao_sem_selecao:
  "ativos_selecionados met sol = [] \<Longrightarrow> extrair_solucao met sol = Inl KeyError"
  by (simp add: extrair_solucao_def)

lemma modelo_negativo_so_vazio:
  assumes "construir_modelo config_sem_minimo metricas_negativo = Inr m" and "feasible m a"
  shows "a (X ''C'') = 0 \<and> a (Y ''C'') = 0"
proof -
  have i: "''C'' \<in> set (index metricas_negativo)" "retorno_esperado metricas_negativo ''C'' < 0"
    by (simp_all add: metricas_negativo_def metricas_exemplo_def)
  have "truthy (dict_get config_sem_minimo ''excluir_retorno_negativo'' (PyBool True))"
    by (simp add: dict_get_def config_sem_minimo_def config_exemplo_def)
  from feasible_negativo[OF assms i this] have "a (Y ''C'') = 0" .
  moreover from feasible_asset[OF assms i(1)] have "a (X ''C'') \<le> a (Y ''C'')"
    and "a (X ''C'') = 0 \<or> a (X ''C'') = 1" by auto
  ultimately show ?thesis by auto
qed

text \<open>
  Claim C3. On a solved model with no asset selected the extractor should return zero
  ratios without raising. Here the empty assignment is feasible (it is the only feasible
  one, by \<open>modelo_negativo_so_vazio\<close>), and the extractor raises KeyError when it reads
  the column \<open>investimento\<close> of the empty frame, before any of its guards
  \<open>if investimento_total > 0\<close> is reached; \<open>otimizar\<close> passes the error on.
\<close>

theorem carteira_vazia_levanta_erro:
  "(\<exists>m. construir_modelo config_sem_minimo metricas_negativo = Inr m
        \<and> feasible m (valor solve_vazio))
   \<and> ativos_selecionados metricas_negativo solve_vazio = []
   \<and> extrair_solucao metricas_negativo solve_vazio = Inl KeyError
   \<and> otimizar metricas_negativo solve_vazio = Inl KeyError"
proof -
  have "max_lotes 10000 metricas_negativo = Inr 50"
    by (simp add: max_lotes_def metricas_negativo_def metricas_exemplo_def py_int_def)
  then have "\<exists>m. construir_modelo config_sem_minimo metricas_negativo = Inr m
        \<and> feasible m (valor solve_vazio)"
    by (simp add: construir_modelo_def config_sem_minimo_def config_exemplo_def feasible_def
        restricoes_setor_def restricoes_max_ativo_def restricoes_negativos_def
        restricoes_consistencia_def dict_get_def investimento_def)
       (simp add: metricas_negativo_def metricas_exemplo_def solve_vazio_def)
  moreover have s: "ativos_selecionados metricas_negativo solve_vazio = []"
    by (simp add: ativos_selecionados_def solve_vazio_def metricas_negativo_def)
  moreover have "extrair_solucao metricas_negativo solve_vazio = Inl KeyError"
    using s by (simp add: extrair_solucao_def)
  moreover from this have "otimizar metricas_negativo solve_vazio = Inl KeyError"
    by (simp add: otimizar_def solve_vazio_def)
  ultimately show ?thesis by blast
qed

section \<open>Reported metrics and the rounded quantities\<close>

text \<open>
  When every selected lot count is exactly an integer, the reported weighted return and
  risk are the ratios over the line items' rounded quantities.
\<close>

lemma extrair_solucao_integral:
  assumes "extrair_solucao met sol = Inr res"
    and "\<And>i. i \<in> set (ativos_selecionados met sol) \<Longrightarrow> valor sol (Y i) \<in> \<int>"
    and "0 < investimento_total res"
  shows "retorno_total res
           = sum_list (map (\<lambda>it. item_retorno_esperado it * item_preco it
                                    * of_int (item_quantidade it)) (carteira res))
             / investimento_total res"
    and "risco_total res
           = sum_list (map (\<lambda>it. item_desvio_padrao it * item_preco it
                                    * of_int (item_quantidade it)) (carteira res))
             / investimento_total res"
proof -
  note e = extrair_solucao_Inr[OF assms(1)]
  have "map (\<lambda>it. item_retorno_esperado it * item_preco it * of_int (item_quantidade it))
          (carteira res)
        = map (\<lambda>i. retorno_esperado met i * preco_atual met i * valor sol (Y i))
            (ativos_selecionados met sol)"
    unfolding e(2) by (simp add: linha_carteira_def Let_def comp_def py_round_Ints assms(2))
  with e(5) assms(3) show "retorno_total res
           = sum_list (map (\<lambda>it. item_retorno_esperado it * item_preco it
                                    * of_int (item_quantidade it)) (carteira res))
             / investimento_total res" by simp
  have "map (\<lambda>it. item_desvio_padrao it * item_preco it * of_int (item_quantidade it))
          (carteira res)
        = map (\<lambda>i. desvio_padrao met i * preco_atual met i * valor sol (Y i))
            (ativos_selecionados met sol)"
    unfolding e(2) by (simp add: linha_carteira_def Let_def comp_def py_round_Ints assms(2))
  with e(6) assms(3) show "risco_total res
           = sum_list (map (\<lambda>it. item_desvio_padrao it * item_preco it
                                    * of_int (item_quantidade it)) (carteira res))
             / investimento_total res" by simp
qed

text \<open>
  Claim C5. The reported weighted return and risk should be the ratios computed with the
  rounded quantity of each line item. For a lot count inside the solver's integrality
  tolerance but not an integer, the extractor rounds the quantity in the line item and in
  the total investment (2 lots, 200), but multiplies by the raw solver value in the
  numerators, so the reported return and risk differ from the ratios over the line items.
\<close>

theorem retorno_usa_valor_nao_arredondado:
  "\<exists>res. extrair_solucao metricas_exemplo solve_quase_inteiro = Inr res
      \<and> map item_ticker (carteira res) = [''A'']
      \<and> map item_quantidade (carteira res) = [2]
      \<and> investimento_total res = 200
      \<and> retorno_total res = 20 / 100 * 100 * (2 + 1 / 10 ^ 10) / 200
      \<and> retorno_total res
          \<noteq> sum_list (map (\<lambda>it. item_retorno_esperado it * item_preco it
                                   * of_int (item_quantidade it)) (carteira res))
            / investimento_total res
      \<and> risco_total res
          \<noteq> sum_list (map (\<lambda>it. item_desvio_padrao it * item_preco it
                                   * of_int (item_quantidade it)) (carteira res))
            / investimento_total res"
proof -
  have r: "py_round (20000000001 / 10000000000) = 2"
    by (simp add: py_round_def Let_def)
  show ?thesis
    by (simp add: extrair_solucao_def ativos_selecionados_def linha_carteira_def Let_def
        solve_quase_inteiro_def metricas_exemplo_def r)
qed

section \<open>The presets' keys\<close>

text \<open>
  The claim as stated (C9: the three presets define the same keys, among them the
  negative-return flag) fails: the moderate preset has no key
  \<open>excluir_retorno_negativo\<close>.
\<close>

theorem presets_chaves_diferentes:
  "\<not> (dom CENARIO_CONSERVADOR = dom CENARIO_MODERADO
       \<and> dom CENARIO_MODERADO = dom CENARIO_AGRESSIVO
       \<and> ''excluir_retorno_negativo'' \<in> dom CENARIO_MODERADO)"
  by (simp add: CENARIO_MODERADO_def)

text \<open>
  Claim C9, amended. The moderate and the aggressive preset define the same ten keys;
  the conservative preset defines these ten and \<open>excluir_retorno_negativo\<close>, which the
  other two leave out; read with the builder's default \<open>True\<close>, the flag is \<open>True\<close>
  under all three presets.
\<close>

theorem presets_chaves:
  "dom CENARIO_MODERADO = dom CENARIO_AGRESSIVO
   \<and> dom CENARIO_MODERADO
       = {''orcamento'', ''risco_maximo'', ''retorno_minimo'', ''num_ativos_min'',
          ''num_ativos_max'', ''diversificacao_setor'', ''alpha_setor_min'',
          ''alpha_setor_max'', ''num_setores_min'', ''max_ativo_pct''}
   \<and> dom CENARIO_CONSERVADOR = insert ''excluir_retorno_negativo'' (dom CENARIO_MODERADO)
   \<and> ''excluir_retorno_negativo'' \<notin> dom CENARIO_MODERADO
   \<and> dict_get CENARIO_MODERADO ''excluir_retorno_negativo'' (PyBool True) = PyBool True
   \<and> dict_get CENARIO_AGRESSIVO ''excluir_retorno_negativo'' (PyBool True) = PyBool True
   \<and> dict_get CENARIO_CONSERVADOR ''excluir_retorno_negativo'' (PyBool True) = PyBool True"
proof -
  have m: "dom CENARIO_MODERADO
       = {''orcamento'', ''risco_maximo'', ''retorno_minimo'', ''num_ativos_min'',
          ''num_ativos_max'', ''diversificacao_setor'', ''alpha_setor_min'',
          ''alpha_setor_max'', ''num_setores_min'', ''max_ativo_pct''}"
    unfolding CENARIO_MODERADO_def dom_map_of_conv_image_fst by simp
  have a: "dom CENARIO_AGRESSIVO
       = {''orcamento'', ''risco_maximo'', ''retorno_minimo'', ''num_ativos_min'',
          ''num_ativos_max'', ''diversificacao_setor'', ''alpha_setor_min'',
          ''alpha_setor_max'', ''num_setores_min'', ''max_ativo_pct''}"
    unfolding CENARIO_AGRESSIVO_def dom_map_of_conv_image_fst by simp
  have c: "dom CENARIO_CONSERVADOR
       = {''orcamento'', ''risco_maximo'', ''retorno_minimo'', ''num_ativos_min'',
          ''num_ativos_max'', ''diversificacao_setor'', ''alpha_setor_min'',
          ''alpha_setor_max'', ''num_setores_min'', ''max_ativo_pct'',
          ''excluir_retorno_negativo''}"
    unfolding CENARIO_CONSERVADOR_def dom_map_of_conv_image_fst by simp
  have n: "''excluir_retorno_negativo'' \<notin> dom CENARIO_MODERADO"
    unfolding m by simp
  have d: "dict_get CENARIO_MODERADO ''excluir_retorno_negativo'' (PyBool True) = PyBool True"
    "dict_get CENARIO_AGRESSIVO ''excluir_retorno_negativo'' (PyBool True) = PyBool True"
    "dict_get CENARIO_CONSERVADOR ''excluir_retorno_negativo'' (PyBool True) = PyBool True"
    by (simp_all add: dict_get_def CENARIO_MODERADO_def CENARIO_AGRESSIVO_def
        CENARIO_CONSERVADOR_def)
  have "dom CENARIO_CONSERVADOR = insert ''excluir_retorno_negativo'' (dom CENARIO_MODERADO)"
    unfolding m c by auto
  with m a n d show ?thesis by simp
qed

section \<open>Properties of the tape parser\<close>

lemma strip_idem: "strip (strip s) = strip s"
proof -
  define u where "u = dropWhile is_space s"
  define v where "v = dropWhile is_space (rev u)"
  have t: "strip s = rev v" by (simp add: strip_def u_def v_def)
  have "dropWhile is_space (rev v) = rev v"
  proof (cases "v = []")
    case True
    then show ?thesis by simp
  next
    case False
    have "rev u = takeWhile is_space (rev u) @ v" by (simp add: v_def)
    then have u: "u = rev v @ rev (takeWhile is_space (rev u))"
      by (metis rev_append rev_rev_ident)
    from False have "rev v \<noteq> []" by simp
    with u have "hd (rev v) = hd u" by (metis hd_append2)
    moreover from False u have "u \<noteq> []" by auto
    then have "\<not> is_space (hd u)" unfolding u_def by (rule hd_dropWhile)
    ultimately have "\<not> is_space (hd (rev v))" by simp
    with \<open>rev v \<noteq> []\<close> show ?thesis by (cases "rev v") auto
  qed
  moreover have "dropWhile is_space (rev (rev v)) = v" by (simp add: v_def)
  ultimately show ?thesis unfolding t by (simp add: strip_def)
qed

lemma startswith_01:
  assumes "startswith linha ''01''"
  shows "\<not> startswith linha ''00''" and "\<not> startswith linha ''99''"
  using assms by (auto simp: startswith_def)

text \<open>
  What the parser computes on a whole tape: the lines of type 01 are kept, an empty
  selection or a date that does not parse raises, and every kept line becomes its
  converted record.
\<close>

lemma ler_linhas_filter:
  "ler_linhas linhas = map registro (filter (\<lambda>l. startswith l ''01'') linhas)"
  by (induction linhas) (auto simp: startswith_01)

lemma converte_registro:
  fixes to_datetime :: "string \<Rightarrow> 'd option"
  shows "map (\<lambda>(k, c). if k = ''nome_empresa'' then (k, str_strip c) else (k, c))
     (map (\<lambda>(k, c). if k = ''ticker'' then (k, str_strip c) else (k, c))
     (map (\<lambda>(k, c). if k = ''total_negocios'' then (k, numerico to_numeric c) else (k, c))
     (map (\<lambda>(k, c). if k = ''quantidade_negociada'' then (k, numerico to_numeric c) else (k, c))
     (map (\<lambda>(k, c). if k = ''volume_total'' then (k, dividir 100 (numerico to_numeric c)) else (k, c))
     (map (\<lambda>(k, c). if k = ''preco_ultimo'' then (k, dividir 100 (numerico to_numeric c)) else (k, c))
     (map (\<lambda>(k, c). if k = ''preco_medio'' then (k, dividir 100 (numerico to_numeric c)) else (k, c))
     (map (\<lambda>(k, c). if k = ''preco_minimo'' then (k, dividir 100 (numerico to_numeric c)) else (k, c))
     (map (\<lambda>(k, c). if k = ''preco_maximo'' then (k, dividir 100 (numerico to_numeric c)) else (k, c))
     (map (\<lambda>(k, c). if k = ''preco_abertura'' then (k, dividir 100 (numerico to_numeric c)) else (k, c))
     (map (\<lambda>(k, c). if k = ''data_pregao''
             then (k, case to_datetime (texto_de (Some c)) of Some d \<Rightarrow> Data d | None \<Rightarrow> c)
             else (k, c))
     (map (\<lambda>(k, s). (k, Texto s)) (registro l))))))))))))
   = registro_convertido to_numeric to_datetime l"
  by (simp add: registro_def registro_convertido_def colunas_spec_def campos_preco_def Let_def
      strip_idem split: option.splits)

lemma data_do_registro:
  "texto_de (map_of (map (\<lambda>(k, s). (k, Texto s)) (registro l)) ''data_pregao'')
     = strip (slice 2 10 l)"
  by (simp add: registro_def colunas_spec_def)

lemma processar_cotahist_eq:
  fixes to_datetime :: "string \<Rightarrow> ('d::linorder) option"
  shows "processar_cotahist to_numeric to_datetime linhas =
     (let regs = filter (\<lambda>l. startswith l ''01'') linhas
      in if regs = [] then Inl KeyError
         else if \<exists>l\<in>set regs. to_datetime (strip (slice 2 10 l)) = None then Inl ValueError
         else Inr (sort_key (\<lambda>r. (data_de (map_of r ''data_pregao''),
                                   texto_de (map_of r ''ticker'')))
                     (map (registro_convertido to_numeric to_datetime) regs)))"
proof -
  let ?regs = "filter (\<lambda>l. startswith l ''01'') linhas"
  have conv: "atualizar ''nome_empresa'' str_strip
     (atualizar ''ticker'' str_strip
     (atualizar ''total_negocios'' (numerico to_numeric)
     (atualizar ''quantidade_negociada'' (numerico to_numeric)
     (atualizar ''volume_total'' (dividir 100 \<circ> numerico to_numeric)
     (fold (\<lambda>campo. atualizar campo (dividir 100 \<circ> numerico to_numeric)) campos_preco
     (atualizar ''data_pregao''
        (\<lambda>c. case to_datetime (texto_de (Some c)) of Some d \<Rightarrow> Data d | None \<Rightarrow> c)
     (map (map (\<lambda>(k, s). (k, Texto s))) (map registro ?regs))))))))
     = map (registro_convertido to_numeric to_datetime) ?regs"
    unfolding atualizar_def campos_preco_def fold_simps list.map_comp
    by (rule map_cong[OF refl]) (simp only: comp_def converte_registro)
  have ex: "list_ex (\<lambda>r. to_datetime (texto_de (map_of r ''data_pregao'')) = None)
              (map (map (\<lambda>(k, s). (k, Texto s))) (map registro ?regs))
          \<longleftrightarrow> (\<exists>l\<in>set ?regs. to_datetime (strip (slice 2 10 l)) = None)"
    by (simp add: list_ex_iff data_do_registro del: set_filter)
  show ?thesis
    unfolding processar_cotahist_def ler_linhas_filter Let_def conv ex
    by simp
qed

text \<open>The sample lines, field by field.\<close>

lemma campos_exemplo:
  "startswith linha_exemplo ''01''"
  "strip (slice 2 10 linha_exemplo) = ''20240102''"
  "strip (slice 12 24 linha_exemplo) = ''PETR4''"
  "strip (slice 56 69 linha_exemplo) = ''0000000003750''"
  "strip (slice 170 188 linha_exemplo) = ''000000000123456789''"
  by (simp_all add: linha_exemplo_def startswith_def slice_def strip_def is_space_def)

lemma campos_malformada:
  "startswith linha_malformada ''01''"
  "strip (slice 2 10 linha_malformada) = ''20240101''"
  "strip (slice 12 24 linha_malformada) = ''PETR4''"
  "strip (slice 56 69 linha_malformada) = ''000000000ABCD''"
  "strip (slice 170 188 linha_malformada) = ''000000000123456789''"
  by (simp_all add: linha_malformada_def startswith_def slice_def strip_def is_space_def)

lemma campos_data_invalida:
  "startswith linha_data_invalida ''01''"
  "strip (slice 2 10 linha_data_invalida) = ''2024AB02''"
  by (simp_all add: linha_data_invalida_def startswith_def slice_def strip_def is_space_def)

lemma outras_linhas:
  "\<not> startswith cabecalho ''01''" "\<not> startswith rodape ''01''"
  by (simp_all add: cabecalho_def rodape_def startswith_def)

lemma digitos_exemplo:
  "to_datetime_digitos ''20240102'' = Some 20240102"
  "to_datetime_digitos ''20240101'' = Some 20240101"
  "to_datetime_digitos ''2024AB02'' = None"
  "to_numeric_digitos ''0000000003750'' = Finite 3750"
  "to_numeric_digitos ''000000000123456789'' = Finite 123456789"
  "to_numeric_digitos ''000000000ABCD'' = NaN"
  by (simp_all add: to_datetime_digitos_def to_numeric_digitos_def digito_def)

lemma registros_exemplo:
  "map_of (registro_convertido to_numeric_digitos to_datetime_digitos linha_exemplo) ''data_pregao''
     = Some (Data 20240102)"
  "map_of (registro_convertido to_numeric_digitos to_datetime_digitos linha_exemplo) ''ticker''
     = Some (Texto ''PETR4'')"
  "map_of (registro_convertido to_numeric_digitos to_datetime_digitos linha_exemplo) ''preco_abertura''
     = Some (Numero (Finite (3750 / 100)))"
  "map_of (registro_convertido to_numeric_digitos to_datetime_digitos linha_exemplo) ''volume_total''
     = Some (Numero (Finite (123456789 / 100)))"
  "map_of (registro_convertido to_numeric_digitos to_datetime_digitos linha_malformada) ''data_pregao''
     = Some (Data 20240101)"
  "map_of (registro_convertido to_numeric_digitos to_datetime_digitos linha_malformada) ''ticker''
     = Some (Texto ''PETR4'')"
  "map_of (registro_convertido to_numeric_digitos to_datetime_digitos linha_malformada) ''preco_abertura''
     = Some (Numero NaN)"
  "map_of (registro_convertido to_numeric_digitos to_datetime_digitos linha_malformada) ''volume_total''
     = Some (Numero (Finite (123456789 / 100)))"
  by (simp_all add: registro_convertido_def colunas_spec_def campos_preco_def Let_def
      campos_exemplo campos_malformada digitos_exemplo)

text \<open>
  The claim as stated (C8: a field with non-numeric content yields an undefined value
  rather than an exception) fails for the date field: \<open>pd.to_datetime\<close> is called
  without \<open>errors='coerce'\<close>, so one line of type 01 whose date does not parse makes the
  whole parse raise ValueError.
\<close>

theorem data_invalida_levanta_erro:
  "startswith linha_data_invalida ''01''
   \<and> strip (slice 2 10 linha_data_invalida) = ''2024AB02''
   \<and> to_datetime_digitos ''2024AB02'' = None
   \<and> processar_cotahist to_numeric_digitos to_datetime_digitos
        [cabecalho, linha_data_invalida, rodape] = Inl ValueError"
  by (simp add: processar_cotahist_eq campos_data_invalida digitos_exemplo outras_linhas)

text \<open>
  Claim C8, amended. On a tape with at least one line of record type 01, lines of every
  other type are discarded. If the date field of some line of type 01 does not parse, the
  parse raises ValueError. Otherwise the parse yields exactly one record per line of type
  01, sorted by date and ticker. Each field of a record is the substring at the schema's
  offsets, stripped of surrounding whitespace: the date converted; each of the five price
  fields and the volume field the parsed number divided by 100, and NaN (no exception)
  when the content does not parse; the quantity and the trade count the parsed number;
  every other field the text.
\<close>

theorem processar_cotahist_registros:
  fixes to_datetime :: "string \<Rightarrow> ('d::linorder) option"
  assumes "\<exists>l\<in>set linhas. startswith l ''01''"
  shows "(if \<exists>l\<in>set linhas. startswith l ''01'' \<and> to_datetime (strip (slice 2 10 l)) = None
          then processar_cotahist to_numeric to_datetime linhas = Inl ValueError
          else \<exists>df. processar_cotahist to_numeric to_datetime linhas = Inr df
                 \<and> df = sort_key (\<lambda>r. (data_de (map_of r ''data_pregao''),
                                          texto_de (map_of r ''ticker'')))
                          (map (registro_convertido to_numeric to_datetime)
                             (filter (\<lambda>l. startswith l ''01'') linhas))
                 \<and> length df = length (filter (\<lambda>l. startswith l ''01'') linhas)
                 \<and> set df = registro_convertido to_numeric to_datetime
                               ` {l \<in> set linhas. startswith l ''01''})
       \<and> (\<forall>l. \<forall>(nome, inicio, fim)\<in>set colunas_spec.
            let s = strip (slice inicio fim l);
                c = map_of (registro_convertido to_numeric to_datetime l) nome
            in if nome = ''data_pregao'' then \<forall>d. to_datetime s = Some d \<longrightarrow> c = Some (Data d)
               else if nome \<in> set campos_preco \<or> nome = ''volume_total''
                 then c = Some (Numero (ieee_div (to_numeric s) (Finite 100)))
                      \<and> (\<forall>n. to_numeric s = Finite n \<longrightarrow> c = Some (Numero (Finite (n / 100))))
                      \<and> (to_numeric s = NaN \<longrightarrow> c = Some (Numero NaN))
               else if nome = ''quantidade_negociada'' \<or> nome = ''total_negocios''
                 then c = Some (Numero (to_numeric s))
               else c = Some (Texto s))"
proof
  let ?regs = "filter (\<lambda>l. startswith l ''01'') linhas"
  from assms have ne: "?regs \<noteq> []" by (simp add: filter_empty_conv)
  have bad: "(\<exists>l\<in>set ?regs. to_datetime (strip (slice 2 10 l)) = None)
      \<longleftrightarrow> (\<exists>l\<in>set linhas. startswith l ''01'' \<and> to_datetime (strip (slice 2 10 l)) = None)"
    by auto
  show "if \<exists>l\<in>set linhas. startswith l ''01'' \<and> to_datetime (strip (slice 2 10 l)) = None
          then processar_cotahist to_numeric to_datetime linhas = Inl ValueError
          else \<exists>df. processar_cotahist to_numeric to_datetime linhas = Inr df
                 \<and> df = sort_key (\<lambda>r. (data_de (map_of r ''data_pregao''),
                                          texto_de (map_of r ''ticker'')))
                          (map (registro_convertido to_numeric to_datetime)
                             (filter (\<lambda>l. startswith l ''01'') linhas))
                 \<and> length df = length (filter (\<lambda>l. startswith l ''01'') linhas)
                 \<and> set df = registro_convertido to_numeric to_datetime
                               ` {l \<in> set linhas. startswith l ''01''}"
    unfolding processar_cotahist_eq[of to_numeric to_datetime linhas] Let_def
    using ne bad by (simp del: set_filter) auto
next
  show "\<forall>l. \<forall>(nome, inicio, fim)\<in>set colunas_spec.
            let s = strip (slice inicio fim l);
                c = map_of (registro_convertido to_numeric to_datetime l) nome
            in if nome = ''data_pregao'' then \<forall>d. to_datetime s = Some d \<longrightarrow> c = Some (Data d)
               else if nome \<in> set campos_preco \<or> nome = ''volume_total''
                 then c = Some (Numero (ieee_div (to_numeric s) (Finite 100)))
                      \<and> (\<forall>n. to_numeric s = Finite n \<longrightarrow> c = Some (Numero (Finite (n / 100))))
                      \<and> (to_numeric s = NaN \<longrightarrow> c = Some (Numero NaN))
               else if nome = ''quantidade_negociada'' \<or> nome = ''total_negocios''
                 then c = Some (Numero (to_numeric s))
               else c = Some (Texto s)"
    by (simp add: registro_convertido_def colunas_spec_def campos_preco_def Let_def)
qed

text \<open>
  The sample tape yields two records, the earlier day first; the non-numeric opening
  price is NaN, the other opening price is 37.50.
\<close>

theorem processar_cotahist_registros_witness:
  "(\<exists>l\<in>set tape_exemplo. startswith l ''01'')
   \<and> \<not> (\<exists>l\<in>set tape_exemplo. startswith l ''01''
            \<and> to_datetime_digitos (strip (slice 2 10 l)) = None)
   \<and> (\<exists>df. processar_cotahist to_numeric_digitos to_datetime_digitos tape_exemplo = Inr df
          \<and> length df = 2
          \<and> map (\<lambda>r. map_of r ''data_pregao'') df = [Some (Data 20240101), Some (Data 20240102)]
          \<and> map (\<lambda>r. map_of r ''ticker'') df = [Some (Texto ''PETR4''), Some (Texto ''PETR4'')]
          \<and> map (\<lambda>r. map_of r ''preco_abertura'') df
               = [Some (Numero NaN), Some (Numero (Finite (3750 / 100)))]
          \<and> map (\<lambda>r. map_of r ''volume_total'') df
               = [Some (Numero (Finite (123456789 / 100))),
                  Some (Numero (Finite (123456789 / 100)))])"
proof -
  have h: "\<exists>l\<in>set tape_exemplo. startswith l ''01''"
    by (simp add: tape_exemplo_def campos_exemplo)
  have ok: "\<not> (\<exists>l\<in>set tape_exemplo. startswith l ''01''
            \<and> to_datetime_digitos (strip (slice 2 10 l)) = None)"
    by (simp add: tape_exemplo_def campos_exemplo campos_malformada digitos_exemplo outras_linhas)
  have regs: "filter (\<lambda>l. startswith l ''01'') tape_exemplo = [linha_exemplo, linha_malformada]"
    by (simp add: tape_exemplo_def campos_exemplo campos_malformada outras_linhas)
  from processar_cotahist_registros[OF h, of to_datetime_digitos to_numeric_digitos] ok
  obtain df where df: "processar_cotahist to_numeric_digitos to_datetime_digitos tape_exemplo = Inr df"
    and eq: "df = sort_key (\<lambda>r. (data_de (map_of r ''data_pregao''), texto_de (map_of r ''ticker'')))
                  (map (registro_convertido to_numeric_digitos to_datetime_digitos)
                     (filter (\<lambda>l. startswith l ''01'') tape_exemplo))"
    by auto
  have "df = [registro_convertido to_numeric_digitos to_datetime_digitos linha_malformada,
              registro_convertido to_numeric_digitos to_datetime_digitos linha_exemplo]"
    unfolding eq regs by (simp add: registros_exemplo)
  with df show ?thesis using h ok by (simp add: registros_exemplo)
qed


section \<open>Properties of the metrics\<close>











end
